theory Spec2Isabelle
  imports Complex_Main "HOL-Library.AList"
begin

section \<open>The Raise3D printer API client (custom\_components/raise3d/api.py)\<close>

text \<open>
  A shallow embedding of the authenticated REST client of the integration: the signature
  generation, the request execution of \<^verbatim>\<open>Raise3DPrinterAPI\<close>, the login and the
  automatic re-authentication of \<^verbatim>\<open>Raise3DStatefulPrinterAPI\<close>, and the transient-failure
  handler \<^verbatim>\<open>_async_call_api_method\<close> of \<^verbatim>\<open>__init__.py\<close>.

  Python exceptions are values of the type \<open>exc\<close>, and a computation that may raise returns
  \<open>exc + 'a\<close> (\<open>Inl\<close> the exception). The HTTP session, the clock and \<^verbatim>\<open>asyncio.sleep\<close>
  are effects on an explicit \<open>world\<close>; the fields of the client object are a record that the
  methods return updated. Logging has no effect on any value and is left out.
\<close>

subsection \<open>JSON values and the Python built-ins applied to them\<close>

text \<open>
  A float of a JSON document: a finite float, given by the rational number it denotes, or
  one of the non-finite values. \<^verbatim>\<open>json.loads\<close> yields them for the literals \<^verbatim>\<open>Infinity\<close>,
  \<^verbatim>\<open>-Infinity\<close> and \<^verbatim>\<open>NaN\<close>, and yields an infinity for a numeral beyond the range of a
  double such as \<^verbatim>\<open>1e400\<close>.
\<close>

datatype pyfloat = Finite rat | PosInf | NegInf | NaN

text \<open>
  The values that \<^verbatim>\<open>response.json()\<close> yields. Python's \<^verbatim>\<open>None\<close> is \<open>JNull\<close>. A dict is an
  association list in insertion order.
\<close>

datatype json =
    JNull
  | JBool bool
  | JInt int
  | JFloat pyfloat
  | JStr string
  | JList "json list"
  | JObj "(string \<times> json) list"

text \<open>
  One constructor per exception class that the code raises or handles; a constructor also
  stands for the subclasses that have no constructor of their own. \<open>APIResponseError\<close> is the
  subclass of \<^verbatim>\<open>aiohttp.ClientResponseError\<close> declared in api.py; both carry the \<^verbatim>\<open>status\<close>
  attribute. Messages are kept for the exceptions the repository raises itself.
\<close>

datatype exc =
    RuntimeError string
  | ValueError string
  | TypeError
  | AttributeError
  | KeyError string
  | OverflowError
  | ClientError string
  | ClientResponseError int
  | APIResponseError int json
  | ServerDisconnectedError
  | ClientOSError "int option"
  | OtherError string

text \<open>
  Library functions the code calls and that are taken as parameters: the two digests of
  \<^verbatim>\<open>hashlib\<close> (applied to the encoded string, returning the hex digest), the multiplication
  of two finite floats, \<^verbatim>\<open>int()\<close> applied to a \<^verbatim>\<open>str\<close> (\<open>None\<close> when it raises \<^verbatim>\<open>ValueError\<close>) and
  \<^verbatim>\<open>str()\<close> as an f-string applies it to a value.
\<close>

record pylib =
  sha1_hexdigest :: "string \<Rightarrow> string"
  md5_hexdigest :: "string \<Rightarrow> string"
  float_mul :: "rat \<Rightarrow> rat \<Rightarrow> rat"
  int_of_str :: "string \<Rightarrow> int option"
  str_of :: "json \<Rightarrow> string"

text \<open>Truth value of a Python object, as \<^verbatim>\<open>not x\<close> and \<^verbatim>\<open>if x:\<close> test it.\<close>

fun truthy :: "json \<Rightarrow> bool" where
  "truthy JNull = False"
| "truthy (JBool b) = b"
| "truthy (JInt n) = (n \<noteq> 0)"
| "truthy (JFloat (Finite r)) = (r \<noteq> 0)"
| "truthy (JFloat f) = True"
| "truthy (JStr s) = (s \<noteq> [])"
| "truthy (JList xs) = (xs \<noteq> [])"
| "truthy (JObj kvs) = (kvs \<noteq> [])"

text \<open>\<^verbatim>\<open>x == n\<close> for an integer literal \<open>n\<close>: booleans and floats compare by value.\<close>

fun py_eq_int :: "json \<Rightarrow> int \<Rightarrow> bool" where
  "py_eq_int (JInt m) n = (m = n)"
| "py_eq_int (JBool b) n = ((if b then 1 else 0) = n)"
| "py_eq_int (JFloat (Finite r)) n = (r = of_int n)"
| "py_eq_int _ n = False"

text \<open>
  \<^verbatim>\<open>int(x)\<close>: a finite float is truncated towards zero, an infinity raises
  \<^verbatim>\<open>OverflowError\<close> and a NaN raises \<^verbatim>\<open>ValueError\<close>.
\<close>

definition trunc :: "rat \<Rightarrow> int" where
  "trunc r = (if 0 \<le> r then \<lfloor>r\<rfloor> else \<lceil>r\<rceil>)"

fun py_int :: "pylib \<Rightarrow> json \<Rightarrow> exc + int" where
  "py_int L JNull = Inl TypeError"
| "py_int L (JBool b) = Inr (if b then 1 else 0)"
| "py_int L (JInt n) = Inr n"
| "py_int L (JFloat (Finite r)) = Inr (trunc r)"
| "py_int L (JFloat PosInf) = Inl OverflowError"
| "py_int L (JFloat NegInf) = Inl OverflowError"
| "py_int L (JFloat NaN) = Inl (ValueError ''cannot convert float NaN to integer'')"
| "py_int L (JStr s) =
     (case int_of_str L s of
        None \<Rightarrow> Inl (ValueError ''invalid literal for int() with base 10'')
      | Some n \<Rightarrow> Inr n)"
| "py_int L (JList xs) = Inl TypeError"
| "py_int L (JObj kvs) = Inl TypeError"

text \<open>\<^verbatim>\<open>x.get(key, default)\<close>: only a dict has the method.\<close>

fun py_get :: "json \<Rightarrow> string \<Rightarrow> json \<Rightarrow> exc + json" where
  "py_get (JObj kvs) key dflt = Inr (case map_of kvs key of None \<Rightarrow> dflt | Some v \<Rightarrow> v)"
| "py_get _ key dflt = Inl AttributeError"

text \<open>\<^verbatim>\<open>x[key]\<close> for a string key.\<close>

fun py_subscript :: "json \<Rightarrow> string \<Rightarrow> exc + json" where
  "py_subscript (JObj kvs) key =
     (case map_of kvs key of None \<Rightarrow> Inl (KeyError key) | Some v \<Rightarrow> Inr v)"
| "py_subscript _ key = Inl TypeError"

text \<open>\<^verbatim>\<open>d.update(e)\<close> on dicts: an existing key keeps its place, a new key is appended.\<close>

definition dict_update :: "(string \<times> json) list \<Rightarrow> (string \<times> json) list \<Rightarrow> (string \<times> json) list" where
  "dict_update d e = foldl (\<lambda>acc (k, v). AList.update k v acc) d e"

text \<open>The decimal numeral an f-string prints for an integer.\<close>

definition digit_char :: "nat \<Rightarrow> char" where
  "digit_char d = ''0123456789'' ! d"

function str_of_nat :: "nat \<Rightarrow> string" where
  "str_of_nat n =
     (if n < 10 then [digit_char n] else str_of_nat (n div 10) @ [digit_char (n mod 10)])"
  by pat_completeness auto
termination
  by (relation "measure id") auto

declare str_of_nat.simps [simp del]

definition str_of_int :: "int \<Rightarrow> string" where
  "str_of_int i = (if i < 0 then CHR ''-'' # str_of_nat (nat (- i)) else str_of_nat (nat i))"

subsection \<open>The world: HTTP session, clock and sleeping\<close>

text \<open>
  What \<^verbatim>\<open>session.request(method, url, json=, data=, params=)\<close> is given. The server
  answers as a function of all the requests sent so far, the last one being the current
  request: \<open>Raises e\<close> when the transport raises \<open>e\<close> before a response arrives,
  \<open>Http status body\<close> otherwise, where \<open>body\<close> is what \<^verbatim>\<open>response.json()\<close> raises or returns.
\<close>

record request =
  req_method :: string
  req_url :: string
  req_params :: "(string \<times> json) list"
  req_json :: "json option"
  req_data :: "json option"

datatype reply = Raises exc | Http nat "exc + json"

record world =
  server :: "request list \<Rightarrow> reply"
  time_time :: "nat \<Rightarrow> rat"
  sent :: "request list"
  clock_reads :: nat
  slept :: "rat list"

subsection \<open>Raise3DPrinterAPI\<close>

record printer_api =
  session_closed :: bool
  printer_url :: string
  printer_token :: json

text \<open>
  The \<^verbatim>\<open>timestamp\<close> argument of \<^verbatim>\<open>generate_sign\<close>: \<^verbatim>\<open>None\<close>, an \<^verbatim>\<open>int\<close>, a \<^verbatim>\<open>float\<close>, a
  \<^verbatim>\<open>datetime\<close> (given by the float its \<^verbatim>\<open>timestamp()\<close> method returns), or any other object.
  These floats and the readings of the clock are finite and given by the rational numbers
  they denote.
\<close>

datatype timestamp_arg = TsNone | TsInt int | TsFloat rat | TsDatetime rat | TsOther

text \<open>
  \<^verbatim>\<open>generate_sign\<close> (api.py, lines 140-157). The first \<^verbatim>\<open>if\<close>/\<^verbatim>\<open>elif\<close> replaces \<^verbatim>\<open>None\<close> by
  the clock reading and a \<^verbatim>\<open>datetime\<close> by its float; the second accepts a float only.
\<close>

definition generate_sign ::
  "pylib \<Rightarrow> string \<Rightarrow> timestamp_arg \<Rightarrow> world \<Rightarrow> (exc + string \<times> int) \<times> world" where
  "generate_sign L password timestamp w =
     (case (case timestamp of
              TsNone \<Rightarrow> (TsFloat (time_time w (clock_reads w)), w\<lparr>clock_reads := Suc (clock_reads w)\<rparr>)
            | TsDatetime f \<Rightarrow> (TsFloat f, w)
            | t \<Rightarrow> (t, w)) of
        (TsFloat f, w1) \<Rightarrow>
          (let millis = trunc (float_mul L f 1000);
               sha1_hash = sha1_hexdigest L
                 (''password='' @ password @ ''&timestamp='' @ str_of_int millis);
               sign = md5_hexdigest L sha1_hash
           in (Inr (sign, millis), w1))
      | (_, w1) \<Rightarrow> (Inl (ValueError ''invalid timestamp argument''), w1))"

text \<open>The arguments of \<^verbatim>\<open>printer_request\<close>; \<^verbatim>\<open>auth\<close> defaults to \<^verbatim>\<open>True\<close>.\<close>

record call =
  c_method :: string
  c_endpoint :: string
  c_params :: "(string \<times> json) list option"
  c_json :: "json option"
  c_data :: "json option"
  c_auth :: bool

text \<open>\<^verbatim>\<open>response_data.get("error", {}).get(key, default)\<close>.\<close>

definition error_field :: "json \<Rightarrow> string \<Rightarrow> json \<Rightarrow> exc + json" where
  "error_field response_data key dflt =
     (case py_get response_data ''error'' (JObj []) of
        Inl e \<Rightarrow> Inl e
      | Inr err \<Rightarrow> py_get err key dflt)"

text \<open>
  Lines 188-201: the exception that leaves the error path. \<^verbatim>\<open>TypeError\<close> and \<^verbatim>\<open>ValueError\<close>
  from the \<^verbatim>\<open>try\<close> block are replaced by the generic \<^verbatim>\<open>aiohttp.ClientError\<close>; any other
  exception of the block propagates.
\<close>

fun int_handler_catches :: "exc \<Rightarrow> bool" where
  "int_handler_catches TypeError = True"
| "int_handler_catches (ValueError m) = True"
| "int_handler_catches _ = False"

definition api_error :: "pylib \<Rightarrow> json \<Rightarrow> exc" where
  "api_error L response_data =
     (case (case error_field response_data ''code'' JNull of
              Inl e \<Rightarrow> Inl e
            | Inr code \<Rightarrow> py_int L code) of
        Inl e \<Rightarrow>
          (if int_handler_catches e then
             (case error_field response_data ''msg'' (JStr ''Unknown error'') of
                Inl e' \<Rightarrow> e'
              | Inr msg \<Rightarrow> ClientError (''API Error: '' @ str_of L msg))
           else e)
      | Inr error_code \<Rightarrow>
          (case error_field response_data ''msg'' (JStr ''Unknown error'') of
             Inl e' \<Rightarrow> e'
           | Inr error_msg \<Rightarrow> APIResponseError error_code error_msg))"

text \<open>
  The body of the \<^verbatim>\<open>async with\<close> (lines 181-201) applied to the server's answer.
  \<^verbatim>\<open>raise_for_status=True\<close> makes the session raise \<^verbatim>\<open>ClientResponseError\<close> with the HTTP
  status for every status from 400 on, before the body is read. The \<^verbatim>\<open>and\<close> of line 186
  evaluates \<^verbatim>\<open>response_data.get("status")\<close> only when the HTTP status is 200.
\<close>

fun handle_response :: "pylib \<Rightarrow> reply \<Rightarrow> exc + json" where
  "handle_response L (Raises e) = Inl e"
| "handle_response L (Http status body) =
     (if 400 \<le> status then Inl (ClientResponseError (int status))
      else case body of
        Inl e \<Rightarrow> Inl e
      | Inr response_data \<Rightarrow>
          (if status = 200 then
             (case py_get response_data ''status'' JNull of
                Inl e \<Rightarrow> Inl e
              | Inr s \<Rightarrow>
                  if py_eq_int s 1 then py_get response_data ''data'' JNull
                  else Inl (api_error L response_data))
           else Inl (api_error L response_data)))"

text \<open>The request that lines 174-182 build.\<close>

definition build_request :: "'a printer_api_scheme \<Rightarrow> call \<Rightarrow> request" where
  "build_request self c =
     (let url = printer_url self @ c_endpoint c;
          pass_params = (if c_auth c then [(''token'', printer_token self)] else []);
          pass_params = (case c_params c of
                           None \<Rightarrow> pass_params
                         | Some p \<Rightarrow> if p \<noteq> [] then dict_update pass_params p else pass_params)
      in \<lparr>req_method = c_method c, req_url = url, req_params = pass_params,
          req_json = c_json c, req_data = c_data c\<rparr>)"

text \<open>\<^verbatim>\<open>Raise3DPrinterAPI.printer_request\<close> (lines 160-201). It assigns no attribute of \<^verbatim>\<open>self\<close>.\<close>

definition printer_request ::
  "pylib \<Rightarrow> 'a printer_api_scheme \<Rightarrow> world \<Rightarrow> call \<Rightarrow> (exc + json) \<times> world" where
  "printer_request L self w c =
     (if session_closed self then (Inl (RuntimeError ''Client session is closed!''), w)
      else if c_auth c \<and> \<not> truthy (printer_token self) then
        (Inl (ValueError ''Authentication token is required for this API call.''), w)
      else
        (let w1 = w\<lparr>sent := sent w @ [build_request self c]\<rparr>
         in (handle_response L (server w1 (sent w1)), w1)))"

text \<open>
  A call with the defaults of the signature of \<^verbatim>\<open>printer_request\<close>, and \<^verbatim>\<open>_prv1\<close>
  (lines 203-204), which prefixes the endpoint and passes everything else on to
  \<^verbatim>\<open>self.printer_request\<close>.
\<close>

definition api_call :: "string \<Rightarrow> string \<Rightarrow> call" where
  "api_call m url =
     \<lparr>c_method = m, c_endpoint = url, c_params = None, c_json = None, c_data = None,
      c_auth = True\<rparr>"

definition prv1 :: "call \<Rightarrow> call" where
  "prv1 c = c\<lparr>c_endpoint := ''/v1'' @ c_endpoint c\<rparr>"

text \<open>
  \<^verbatim>\<open>Raise3DPrinterAPI.login\<close> (lines 206-213): the call it hands to \<^verbatim>\<open>_prv1\<close>. The keyword
  arguments it passes through can be \<^verbatim>\<open>json\<close> and \<^verbatim>\<open>data\<close>.
\<close>

record login_kwargs =
  kw_json :: "json option"
  kw_data :: "json option"

definition no_kwargs :: login_kwargs where
  "no_kwargs = \<lparr>kw_json = None, kw_data = None\<rparr>"

definition login_call :: "string \<Rightarrow> int \<Rightarrow> login_kwargs \<Rightarrow> call" where
  "login_call sign timestamp kw =
     prv1 ((api_call ''GET'' ''/login'')
       \<lparr>c_params := Some [(''sign'', JStr sign), (''timestamp'', JInt timestamp)],
        c_json := kw_json kw, c_data := kw_data kw, c_auth := False\<rparr>)"

definition login :: "pylib \<Rightarrow> 'a printer_api_scheme \<Rightarrow> world \<Rightarrow> string \<Rightarrow> int \<Rightarrow> login_kwargs
    \<Rightarrow> (exc + json) \<times> world" where
  "login L self w sign timestamp kw = printer_request L self w (login_call sign timestamp kw)"

subsection \<open>Raise3DStatefulPrinterAPI\<close>

text \<open>
  The stateful classes of api.py are \<^verbatim>\<open>Raise3DStatefulPrinterAPI\<close>, \<^verbatim>\<open>Raise3DStatefulAPI\<close>,
  which is also a \<^verbatim>\<open>Raise3DCameraAPI\<close>, and \<^verbatim>\<open>Raise3DHostBasedStatefulAPI\<close>, which is a
  \<^verbatim>\<open>Raise3DHostBasedAPIBase\<close> as well. The field \<open>camera\<close> is \<open>None\<close> for an instance of the
  first class only and holds the camera attributes otherwise; \<open>host_based\<close> is \<open>None\<close>
  unless the instance is host-based. They decide the \<^verbatim>\<open>isinstance\<close> tests.
\<close>

record host_based_api =
  host :: string
  camera_port :: int
  printer_port :: int

record camera_api =
  camera_url :: string
  camera_username :: json
  camera_password :: json
  host_based :: "host_based_api option"

record stateful_printer_api = printer_api +
  printer_password :: string
  printer_auto_auth :: bool
  camera :: "camera_api option"

text \<open>
  \<open>Some status\<close> exactly for the instances of \<^verbatim>\<open>aiohttp.ClientResponseError\<close>, which an
  \<^verbatim>\<open>except aiohttp.ClientResponseError as exc\<close> clause catches.
\<close>

fun response_status :: "exc \<Rightarrow> int option" where
  "response_status (ClientResponseError status) = Some status"
| "response_status (APIResponseError status msg) = Some status"
| "response_status _ = None"

text \<open>Lines 473-474: the keyword argument \<^verbatim>\<open>auto_auth\<close>, or the attribute when it is \<^verbatim>\<open>None\<close>.\<close>

definition effective_auto_auth :: "stateful_printer_api \<Rightarrow> bool option \<Rightarrow> bool" where
  "effective_auto_auth self auto_auth =
     (case auto_auth of None \<Rightarrow> printer_auto_auth self | Some b \<Rightarrow> b)"

text \<open>
  \<^verbatim>\<open>Raise3DStatefulPrinterAPI.printer_request\<close> (lines 470-490) and
  \<^verbatim>\<open>Raise3DStatefulPrinterAPI.login\<close> (lines 460-468). They call each other:
  \<^verbatim>\<open>printer_request\<close> calls \<^verbatim>\<open>self.login()\<close> after a 401, and \<^verbatim>\<open>login\<close> reaches, through
  \<^verbatim>\<open>super().login\<close> and \<^verbatim>\<open>_prv1\<close>, the overridden \<^verbatim>\<open>self.printer_request\<close> with
  \<^verbatim>\<open>auto_auth=False\<close>. \<open>printer_request\<close> is the method of the base class
  (\<^verbatim>\<open>super().printer_request\<close>).
\<close>

function stateful_printer_request ::
    "pylib \<Rightarrow> stateful_printer_api \<Rightarrow> world \<Rightarrow> bool option \<Rightarrow> call
      \<Rightarrow> ((exc + json) \<times> stateful_printer_api) \<times> world"
  and stateful_login ::
    "pylib \<Rightarrow> stateful_printer_api \<Rightarrow> world \<Rightarrow> string option \<Rightarrow> timestamp_arg \<Rightarrow> login_kwargs
      \<Rightarrow> ((exc + json) \<times> stateful_printer_api) \<times> world"
where
  "stateful_printer_request L self w auto_auth c =
     (case printer_request L self w c of
        (Inr response_data, w1) \<Rightarrow> ((Inr response_data, self), w1)
      | (Inl exc, w1) \<Rightarrow>
          (case response_status exc of
             None \<Rightarrow> ((Inl exc, self), w1)
           | Some status \<Rightarrow>
               if \<not> effective_auto_auth self auto_auth \<or> status \<noteq> 401 then ((Inl exc, self), w1)
               else
                 (case stateful_login L self w1 None TsNone no_kwargs of
                    ((Inl e, self1), w2) \<Rightarrow> ((Inl e, self1), w2)
                  | ((Inr login_data, self1), w2) \<Rightarrow>
                      (case printer_request L self1 w2 c of
                         (r, w3) \<Rightarrow> ((r, self1), w3)))))"
| "stateful_login L self w sign timestamp kw =
     (if timestamp = TsNone \<and> sign \<noteq> None then
        ((Inl (ValueError ''signature provided without timestamp''), self), w)
      else
        (case generate_sign L (printer_password self) TsNone w of
           (Inl e, w1) \<Rightarrow> ((Inl e, self), w1)
         | (Inr (sign', timestamp'), w1) \<Rightarrow>
             (case stateful_printer_request L self w1 (Some False)
                     (login_call sign' timestamp' kw) of
                ((Inl e, self1), w2) \<Rightarrow> ((Inl e, self1), w2)
              | ((Inr response_data, self1), w2) \<Rightarrow>
                  (case py_subscript response_data ''token'' of
                     Inl e \<Rightarrow> ((Inl e, self1), w2)
                   | Inr token \<Rightarrow> ((Inr response_data, self1\<lparr>printer_token := token\<rparr>), w2)))))"
  by pat_completeness auto
termination
  by (relation "measure (\<lambda>x. case x of
        Inl (L, self, w, auto_auth, c) \<Rightarrow> if effective_auto_auth self auto_auth then 2 else 0
      | Inr (L, self, w, sign, timestamp, kw) \<Rightarrow> 1)")
     (auto simp: effective_auto_auth_def)

declare stateful_printer_request.simps [simp del] stateful_login.simps [simp del]

subsection \<open>The API operations\<close>

text \<open>
  The methods of lines 215-449, each of which builds one call and hands it to \<^verbatim>\<open>_prv1\<close>.
  \<^verbatim>\<open>upload_file\<close> reads a file before it does so and is not in the table; its call is
  \<open>prv1 ((api_call ''POST'' ''/fileops/upload'')\<lparr>c_data := Some mp\<rparr>)\<close> for the multipart
  body \<open>mp\<close>. An optional integer argument is an \<open>int option\<close>.
\<close>

datatype operation =
    Get_system_info
  | Get_camera_info
  | Get_running_status
  | Get_basic_info
  | Get_statistics
  | Get_left_nozzle_info
  | Get_right_nozzle_info
  | Set_left_nozzle_temp int
  | Set_right_nozzle_temp int
  | Set_left_nozzle_flowrate int
  | Set_right_nozzle_flowrate int
  | Set_heatbed_temp int
  | Set_feedrate int
  | Set_fan_speed int
  | Axis_control int "int option" "int option" "int option" "int option" "int option" "int option"
  | Move_home
  | Move_file string string
  | Copy_file string string
  | Rename_file string string
  | Delete_file string
  | Get_current_job
  | Set_current_job string
  | Create_job string
  | Recover_last_job
  | List_jobs int int
  | Get_job string int
  | Get_job_image string "int option" "int option"
  | Create_directory string
  | Rename_directory string string
  | Delete_directory string
  | Download_image string "int option" "int option"
  | List_directory string int int

definition get_call :: "string \<Rightarrow> call" where
  "get_call url = prv1 (api_call ''GET'' url)"

definition get_params_call :: "string \<Rightarrow> (string \<times> json) list \<Rightarrow> call" where
  "get_params_call url ps = prv1 ((api_call ''GET'' url)\<lparr>c_params := Some ps\<rparr>)"

definition post_call :: "string \<Rightarrow> call" where
  "post_call url = prv1 (api_call ''POST'' url)"

definition post_json_call :: "string \<Rightarrow> (string \<times> json) list \<Rightarrow> call" where
  "post_json_call url js = prv1 ((api_call ''POST'' url)\<lparr>c_json := Some (JObj js)\<rparr>)"

definition post_data_call :: "string \<Rightarrow> (string \<times> json) list \<Rightarrow> call" where
  "post_data_call url d = prv1 ((api_call ''POST'' url)\<lparr>c_data := Some (JObj d)\<rparr>)"

definition post_params_call :: "string \<Rightarrow> (string \<times> json) list \<Rightarrow> call" where
  "post_params_call url ps = prv1 ((api_call ''POST'' url)\<lparr>c_params := Some ps\<rparr>)"

text \<open>An optional entry of the dict that \<^verbatim>\<open>axis_control\<close> fills key by key.\<close>

definition opt_entry :: "string \<Rightarrow> int option \<Rightarrow> (string \<times> json) list" where
  "opt_entry k v = (case v of None \<Rightarrow> [] | Some n \<Rightarrow> [(k, JInt n)])"

definition axis_control_call ::
  "int \<Rightarrow> int option \<Rightarrow> int option \<Rightarrow> int option \<Rightarrow> int option \<Rightarrow> int option \<Rightarrow> int option \<Rightarrow> call" where
  "axis_control_call is_relative_pos x y z e feed nozzle =
     post_json_call ''/printer/axiscontrol/set''
       ([(''is_relative_pos'', JInt is_relative_pos)] @ opt_entry ''x'' x @ opt_entry ''y'' y
         @ opt_entry ''z'' z @ opt_entry ''e'' e @ opt_entry ''nozzle'' nozzle
         @ opt_entry ''feed'' feed)"

text \<open>
  The defaults of \<^verbatim>\<open>get_job_image\<close> and \<^verbatim>\<open>download_image\<close>: \<^verbatim>\<open>height = width or 32\<close> when
  the height is \<^verbatim>\<open>None\<close>, then \<^verbatim>\<open>width = height\<close> when the width is \<^verbatim>\<open>None\<close>.
\<close>

definition image_size :: "int option \<Rightarrow> int option \<Rightarrow> int \<times> int" where
  "image_size width height =
     (let h = (case height of
                 None \<Rightarrow> (case width of None \<Rightarrow> 32 | Some wd \<Rightarrow> if wd \<noteq> 0 then wd else 32)
               | Some h \<Rightarrow> h);
          wd = (case width of None \<Rightarrow> h | Some wd \<Rightarrow> wd)
      in (wd, h))"

fun operation_call :: "operation \<Rightarrow> call" where
  "operation_call Get_system_info = get_call ''/printer/system''"
| "operation_call Get_camera_info = get_call ''/printer/camera''"
| "operation_call Get_running_status = get_call ''/printer/runningstatus''"
| "operation_call Get_basic_info = get_call ''/printer/basic''"
| "operation_call Get_statistics = get_call ''/dashboard/statistics''"
| "operation_call Get_left_nozzle_info = get_call ''/printer/nozzle1''"
| "operation_call Get_right_nozzle_info = get_call ''/printer/nozzle2''"
| "operation_call (Set_left_nozzle_temp temperature) =
     post_json_call ''/printer/nozzle1/temp/set'' [(''temperature'', JInt temperature)]"
| "operation_call (Set_right_nozzle_temp temperature) =
     post_json_call ''/printer/nozzle2/temp/set'' [(''temperature'', JInt temperature)]"
| "operation_call (Set_left_nozzle_flowrate flowrate) =
     post_json_call ''/printer/nozzle1/flowrate/set'' [(''flowrate'', JInt flowrate)]"
| "operation_call (Set_right_nozzle_flowrate flowrate) =
     post_json_call ''/printer/nozzle2/flowrate/set'' [(''flowrate'', JInt flowrate)]"
| "operation_call (Set_heatbed_temp temperature) =
     post_json_call ''/printer/heatbedtemp/set'' [(''temperature'', JInt temperature)]"
| "operation_call (Set_feedrate feedrate) =
     post_json_call ''/printer/feedrate/set'' [(''feedrate'', JInt feedrate)]"
| "operation_call (Set_fan_speed fanspeed) =
     post_json_call ''/printer/fanspeed/set'' [(''fanspeed'', JInt fanspeed)]"
| "operation_call (Axis_control is_relative_pos x y z e feed nozzle) =
     axis_control_call is_relative_pos x y z e feed nozzle"
| "operation_call Move_home = axis_control_call 0 (Some 0) (Some 0) (Some 0) None None None"
| "operation_call (Move_file file_src file_dst) =
     post_data_call ''/filepos/moveto'' [(''file_src'', JStr file_src), (''file_dst'', JStr file_dst)]"
| "operation_call (Copy_file file_src file_dst) =
     post_data_call ''/filepos/copy'' [(''file_src'', JStr file_src), (''file_dst'', JStr file_dst)]"
| "operation_call (Rename_file file_path new_name) =
     post_data_call ''/filepos/rename'' [(''file_path'', JStr file_path), (''new_name'', JStr new_name)]"
| "operation_call (Delete_file file_path) =
     post_params_call ''/filepos/delete'' [(''data_path'', JStr file_path)]"
| "operation_call Get_current_job = get_call ''/job/currentjob''"
| "operation_call (Set_current_job operate) =
     post_params_call ''/job/currentjob'' [(''operate'', JStr operate)]"
| "operation_call (Create_job file_path) =
     post_params_call ''/job/create'' [(''file_path'', JStr file_path)]"
| "operation_call Recover_last_job = post_call ''/job/recover/set''"
| "operation_call (List_jobs start_pos max_num) =
     get_params_call ''/dashboard/job'' [(''start_pos'', JInt start_pos), (''max_num'', JInt max_num)]"
| "operation_call (Get_job job_id pos) =
     get_params_call ''/dashboard/job'' [(''job_id'', JStr job_id), (''pos'', JInt pos)]"
| "operation_call (Get_job_image job_id width height) =
     (case image_size width height of
        (wd, h) \<Rightarrow> get_params_call ''/dashboard/imagedownload''
                    [(''job_id'', JStr job_id), (''width'', JInt wd), (''height'', JInt h)])"
| "operation_call (Create_directory dir_path) =
     post_data_call ''/filepos/dir/create'' [(''dir_path'', JStr dir_path)]"
| "operation_call (Rename_directory dir_path new_name) =
     post_data_call ''/filepos/dir/rename'' [(''dir_path'', JStr dir_path), (''new_name'', JStr new_name)]"
| "operation_call (Delete_directory dir_path) =
     post_params_call ''/filepos/dir/delete'' [(''dir_path'', JStr dir_path)]"
| "operation_call (Download_image data_path width height) =
     (case image_size width height of
        (wd, h) \<Rightarrow> get_params_call ''/fileops/imagedownload''
                    [(''data_path'', JStr data_path), (''width'', JInt wd), (''height'', JInt h)])"
| "operation_call (List_directory directory_path start_pos max_num) =
     get_params_call ''/fileops/list''
       [(''dir'', JStr directory_path), (''start_pos'', JInt start_pos), (''max_num'', JInt max_num)]"

text \<open>
  \<^verbatim>\<open>int(response_data["camerserver_URI"].partition("/")[0][1:])\<close> (lines 499-501): the part
  of the string before the first slash, without its first character, read as an integer.
  Only a \<^verbatim>\<open>str\<close> has the method \<^verbatim>\<open>partition\<close>.
\<close>

definition camera_port_of :: "pylib \<Rightarrow> json \<Rightarrow> exc + int" where
  "camera_port_of L response_data =
     (case py_subscript response_data ''camerserver_URI'' of
        Inl e \<Rightarrow> Inl e
      | Inr (JStr uri) \<Rightarrow> py_int L (JStr (drop 1 (takeWhile (\<lambda>ch. ch \<noteq> CHR ''/'') uri)))
      | Inr other \<Rightarrow> Inl AttributeError)"

text \<open>
  \<^verbatim>\<open>Raise3DStatefulPrinterAPI.get_camera_info\<close> (lines 493-502). After the request of the
  base method it assigns, on a \<^verbatim>\<open>Raise3DCameraAPI\<close> instance, the camera's user name and
  password from the response, one after the other, and on a host-based instance the camera
  port as well, whose setter (lines 537-541) also rebuilds \<^verbatim>\<open>camera_url\<close>. A subscript
  that raises leaves the earlier assignments in place.
\<close>

definition stateful_get_camera_info ::
  "pylib \<Rightarrow> stateful_printer_api \<Rightarrow> world
    \<Rightarrow> ((exc + json) \<times> stateful_printer_api) \<times> world" where
  "stateful_get_camera_info L self w =
     (case stateful_printer_request L self w None (operation_call Get_camera_info) of
        ((Inl e, self1), w1) \<Rightarrow> ((Inl e, self1), w1)
      | ((Inr response_data, self1), w1) \<Rightarrow>
          (case camera self1 of
             None \<Rightarrow> ((Inr response_data, self1), w1)
           | Some cam \<Rightarrow>
               (case py_subscript response_data ''user_name'' of
                  Inl e \<Rightarrow> ((Inl e, self1), w1)
                | Inr user_name \<Rightarrow>
                    (let cam1 = cam\<lparr>camera_username := user_name\<rparr> in
                     case py_subscript response_data ''password'' of
                       Inl e \<Rightarrow> ((Inl e, self1\<lparr>camera := Some cam1\<rparr>), w1)
                     | Inr password \<Rightarrow>
                         (let cam2 = cam1\<lparr>camera_password := password\<rparr> in
                          case host_based cam2 of
                            None \<Rightarrow> ((Inr response_data, self1\<lparr>camera := Some cam2\<rparr>), w1)
                          | Some hb \<Rightarrow>
                              (case camera_port_of L response_data of
                                 Inl e \<Rightarrow> ((Inl e, self1\<lparr>camera := Some cam2\<rparr>), w1)
                               | Inr port \<Rightarrow>
                                   ((Inr response_data,
                                     self1\<lparr>camera := Some (cam2
                                       \<lparr>camera_url := ''http://'' @ host hb @ '':'' @ str_of_int port,
                                        host_based := Some (hb\<lparr>camera_port := port\<rparr>)\<rparr>)\<rparr>),
                                    w1)))))))"

text \<open>
  An operation on a stateful client: \<^verbatim>\<open>get_camera_info\<close> is the overriding method above;
  every other operation hands its call to \<^verbatim>\<open>self.printer_request\<close>, the overriding method,
  without \<^verbatim>\<open>auto_auth\<close>.
\<close>

definition stateful_operation ::
  "pylib \<Rightarrow> stateful_printer_api \<Rightarrow> world \<Rightarrow> operation
    \<Rightarrow> ((exc + json) \<times> stateful_printer_api) \<times> world" where
  "stateful_operation L self w op =
     (if op = Get_camera_info then stateful_get_camera_info L self w
      else stateful_printer_request L self w None (operation_call op))"

subsection \<open>The transient-failure handler\<close>

text \<open>
  \<^verbatim>\<open>_async_call_api_method\<close> (\<^verbatim>\<open>__init__.py\<close>, lines 110-131). \<open>retry_handled exc\<close> holds
  when one of the three \<^verbatim>\<open>except\<close> clauses catches \<open>exc\<close> and ends without re-raising it, so
  that control reaches the sleep and the second call. The method is any function of the
  client object and the world.
\<close>

fun retry_handled :: "exc \<Rightarrow> bool" where
  "retry_handled ServerDisconnectedError = True"
| "retry_handled (ClientOSError errno) = (errno = Some 104)"
| "retry_handled (ClientResponseError status) = (status = 429)"
| "retry_handled (APIResponseError status msg) = (status = 429)"
| "retry_handled _ = False"

definition async_call_api_method ::
  "('s \<Rightarrow> world \<Rightarrow> ((exc + 'a) \<times> 's) \<times> world) \<Rightarrow> 's \<Rightarrow> world \<Rightarrow> ((exc + 'a) \<times> 's) \<times> world" where
  "async_call_api_method method self w =
     (case method self w of
        ((Inr v, self1), w1) \<Rightarrow> ((Inr v, self1), w1)
      | ((Inl exc, self1), w1) \<Rightarrow>
          if retry_handled exc then method self1 (w1\<lparr>slept := slept w1 @ [3 / 2]\<rparr>)
          else ((Inl exc, self1), w1))"

subsection \<open>Concrete inputs for the examples\<close>

text \<open>
  An instance of the library parameters on which the definitions can be evaluated. The two
  digests are symbolic (they write the name of the digest around its argument), floats
  multiply exactly, \<^verbatim>\<open>int()\<close> reads an optionally signed ASCII numeral and \<^verbatim>\<open>str()\<close> prints
  strings, integers, \<^verbatim>\<open>None\<close> and booleans. The theorems below hold for every instance.
\<close>

fun digits_value :: "nat \<Rightarrow> string \<Rightarrow> nat option" where
  "digits_value acc [] = Some acc"
| "digits_value acc (c # cs) =
     (if 48 \<le> (of_char c :: nat) \<and> (of_char c :: nat) \<le> 57
      then digits_value (10 * acc + (of_char c - 48)) cs else None)"

definition ascii_int_of_str :: "string \<Rightarrow> int option" where
  "ascii_int_of_str s =
     (case s of
        [] \<Rightarrow> None
      | c # cs \<Rightarrow>
          if c = CHR ''-'' then (if cs = [] then None else map_option (\<lambda>n. - int n) (digits_value 0 cs))
          else if c = CHR ''+'' then (if cs = [] then None else map_option int (digits_value 0 cs))
          else map_option int (digits_value 0 s))"

fun example_str_of :: "json \<Rightarrow> string" where
  "example_str_of (JStr s) = s"
| "example_str_of (JInt n) = str_of_int n"
| "example_str_of JNull = ''None''"
| "example_str_of (JBool b) = (if b then ''True'' else ''False'')"
| "example_str_of _ = ''<object>''"

definition example_lib :: pylib where
  "example_lib =
     \<lparr>sha1_hexdigest = (\<lambda>s. ''sha1('' @ s @ '')''),
      md5_hexdigest = (\<lambda>s. ''md5('' @ s @ '')''),
      float_mul = (\<lambda>a b. a * b),
      int_of_str = ascii_int_of_str,
      str_of = example_str_of\<rparr>"

text \<open>
  A server that answers the n-th request with the n-th entry of a script and drops the
  connection afterwards; a world in which nothing has happened yet, with a clock that stands
  at 1700000000.5 seconds; a stateful client for the printer at 192.168.1.50 that is an
  instance of \<^verbatim>\<open>Raise3DStatefulPrinterAPI\<close> only.
\<close>

definition scripted :: "reply list \<Rightarrow> request list \<Rightarrow> reply" where
  "scripted rs hist =
     (if 0 < length hist \<and> length hist \<le> length rs then rs ! (length hist - 1)
      else Raises ServerDisconnectedError)"

definition example_world :: "reply list \<Rightarrow> world" where
  "example_world rs =
     \<lparr>server = scripted rs, time_time = (\<lambda>n. 3400000001 / 2), sent = [], clock_reads = 0,
      slept = []\<rparr>"

definition example_client :: "json \<Rightarrow> bool \<Rightarrow> stateful_printer_api" where
  "example_client token auto =
     \<lparr>session_closed = False, printer_url = ''http://192.168.1.50:10800'', printer_token = token,
      printer_password = ''secret'', printer_auto_auth = auto, camera = None\<rparr>"



text \<open>JSON bodies: a success carrying \<open>d\<close>, and an application error.\<close>

definition ok_body :: "json \<Rightarrow> json" where
  "ok_body d = JObj [(''status'', JInt 1), (''data'', d)]"

definition error_body :: "json \<Rightarrow> json \<Rightarrow> json" where
  "error_body code msg = JObj [(''status'', JInt 0), (''error'', JObj [(''code'', code), (''msg'', msg)])]"

subsection \<open>The specification's wording\<close>

text \<open>
  The signature as the specification writes it, MD5(SHA1("password=" + password +
  "&timestamp=" + epoch\_millis)), the millisecond reading of the clock, and the server's
  answer to a request sent in a world.
\<close>

definition spec_sign :: "pylib \<Rightarrow> string \<Rightarrow> int \<Rightarrow> string" where
  "spec_sign L password millis =
     md5_hexdigest L (sha1_hexdigest L (''password='' @ password @ ''&timestamp='' @ str_of_int millis))"

definition now_millis :: "pylib \<Rightarrow> world \<Rightarrow> int" where
  "now_millis L w = trunc (float_mul L (time_time w (clock_reads w)) 1000)"

definition answer_to :: "world \<Rightarrow> request \<Rightarrow> reply" where
  "answer_to w req = server w (sent w @ [req])"

text \<open>
  Success as the specification defines it: HTTP 200 and the JSON field \<open>status\<close> equal to 1
  (with Python's \<open>==\<close>); the payload is the JSON field \<open>data\<close>, \<^verbatim>\<open>None\<close> when it is absent.
\<close>

fun spec_success :: "reply \<Rightarrow> bool" where
  "spec_success (Http status (Inr (JObj kvs))) =
     (status = 200 \<and> (case map_of kvs ''status'' of None \<Rightarrow> False | Some s \<Rightarrow> py_eq_int s 1))"
| "spec_success _ = False"

fun spec_data :: "reply \<Rightarrow> json" where
  "spec_data (Http status (Inr (JObj kvs))) =
     (case map_of kvs ''data'' of None \<Rightarrow> JNull | Some d \<Rightarrow> d)"
| "spec_data _ = JNull"

text \<open>The \<^verbatim>\<open>status\<close> attribute of the error with which an answer makes a request fail.\<close>

definition failure_status :: "pylib \<Rightarrow> reply \<Rightarrow> int option" where
  "failure_status L r = (case handle_response L r of Inl e \<Rightarrow> response_status e | Inr v \<Rightarrow> None)"

text \<open>
  The \<open>error\<close> object of an application-level error body, when the field is absent (the
  empty dict stands in) or holds an object, and its \<open>code\<close> and \<open>msg\<close> with the defaults
  \<^verbatim>\<open>None\<close> and "Unknown error".
\<close>

definition spec_error_object :: "(string \<times> json) list \<Rightarrow> (string \<times> json) list option" where
  "spec_error_object kvs =
     (case map_of kvs ''error'' of None \<Rightarrow> Some [] | Some (JObj err) \<Rightarrow> Some err | Some _ \<Rightarrow> None)"

definition spec_error_code :: "(string \<times> json) list \<Rightarrow> json" where
  "spec_error_code err = (case map_of err ''code'' of None \<Rightarrow> JNull | Some code \<Rightarrow> code)"

definition spec_error_msg :: "(string \<times> json) list \<Rightarrow> json" where
  "spec_error_msg err = (case map_of err ''msg'' of None \<Rightarrow> JStr ''Unknown error'' | Some msg \<Rightarrow> msg)"

text \<open>
  The transient failures as the specification lists them: connection aborted, the OS-level
  "connection reset by peer" (errno 104), and HTTP 429, which the session raises as
  \<^verbatim>\<open>ClientResponseError\<close> with status 429. \<open>api_error_429\<close> is the application-level error
  whose \<open>error.code\<close> is 429: an \<open>APIResponseError\<close>, raised for an answer whose HTTP status
  is below 400. \<open>counted\<close> wraps a method so that the client object carries the number of
  times the method has been invoked, and \<open>backoff\<close> is the world after
  \<^verbatim>\<open>asyncio.sleep(1.5)\<close>.
\<close>

definition spec_transient :: "exc \<Rightarrow> bool" where
  "spec_transient exc =
     (exc = ServerDisconnectedError \<or> exc = ClientOSError (Some 104) \<or> exc = ClientResponseError 429)"

fun api_error_429 :: "exc \<Rightarrow> bool" where
  "api_error_429 (APIResponseError status msg) = (status = 429)"
| "api_error_429 _ = False"

definition counted ::
  "('s \<Rightarrow> world \<Rightarrow> ((exc + 'a) \<times> 's) \<times> world) \<Rightarrow> 's \<times> nat \<Rightarrow> world
    \<Rightarrow> ((exc + 'a) \<times> 's \<times> nat) \<times> world" where
  "counted method = (\<lambda>(self, n) w.
     case method self w of ((r, self1), w1) \<Rightarrow> ((r, (self1, Suc n)), w1))"

definition invocations :: "((exc + 'a) \<times> 's \<times> nat) \<times> world \<Rightarrow> nat" where
  "invocations res = snd (snd (fst res))"

definition backoff :: "world \<Rightarrow> world" where
  "backoff w = w\<lparr>slept := slept w @ [3 / 2]\<rparr>"


definition after_send :: "world \<Rightarrow> request \<Rightarrow> world" where
  "after_send w req = w\<lparr>sent := sent w @ [req]\<rparr>"

definition after_clock :: "world \<Rightarrow> world" where
  "after_clock w = w\<lparr>clock_reads := Suc (clock_reads w)\<rparr>"

definition login_request :: "pylib \<Rightarrow> stateful_printer_api \<Rightarrow> world \<Rightarrow> request" where
  "login_request L self w =
     build_request self
       (login_call (spec_sign L (printer_password self) (now_millis L w)) (now_millis L w) no_kwargs)"


text \<open>
  A script for the examples: the first request is answered with HTTP 401, the login with a
  token, and the retried request with the given reply.
\<close>

definition relogin_script :: "reply \<Rightarrow> reply list" where
  "relogin_script last_reply =
     [Http 401 (Inr JNull), Http 200 (Inr (ok_body (JObj [(''token'', JStr ''new'')]))), last_reply]"

section \<open>Properties\<close>

subsection \<open>Unfolding the two methods of the stateful client\<close>

lemma generate_sign_now:
  "generate_sign L password TsNone w =
     (Inr (spec_sign L password (now_millis L w), now_millis L w),
      w\<lparr>clock_reads := Suc (clock_reads w)\<rparr>)"
  by (simp add: generate_sign_def spec_sign_def now_millis_def Let_def)

lemma generate_sign_int:
  "generate_sign L password (TsInt n) w = (Inl (ValueError ''invalid timestamp argument''), w)"
  by (simp add: generate_sign_def)

lemma printer_request_closed:
  "session_closed self \<Longrightarrow>
     printer_request L self w c = (Inl (RuntimeError ''Client session is closed!''), w)"
  by (simp add: printer_request_def)

lemma printer_request_no_token:
  "\<not> session_closed self \<Longrightarrow> c_auth c \<Longrightarrow> \<not> truthy (printer_token self) \<Longrightarrow>
     printer_request L self w c =
       (Inl (ValueError ''Authentication token is required for this API call.''), w)"
  by (simp add: printer_request_def)

lemma printer_request_sent:
  "\<not> session_closed self \<Longrightarrow> c_auth c \<longrightarrow> truthy (printer_token self) \<Longrightarrow>
     printer_request L self w c =
       (handle_response L (answer_to w (build_request self c)),
        w\<lparr>sent := sent w @ [build_request self c]\<rparr>)"
  by (auto simp: printer_request_def answer_to_def Let_def)

lemma stateful_printer_request_no_auto:
  "stateful_printer_request L self w (Some False) c =
     (case printer_request L self w c of (r, w1) \<Rightarrow> ((r, self), w1))"
  by (subst stateful_printer_request.simps)
     (simp add: effective_auto_auth_def split: prod.splits sum.splits option.splits)

lemma stateful_login_unfold:
  "stateful_login L self w sign timestamp kw =
     (if timestamp = TsNone \<and> sign \<noteq> None then
        ((Inl (ValueError ''signature provided without timestamp''), self), w)
      else
        (case printer_request L self (w\<lparr>clock_reads := Suc (clock_reads w)\<rparr>)
                (login_call (spec_sign L (printer_password self) (now_millis L w))
                   (now_millis L w) kw) of
           (Inl e, w2) \<Rightarrow> ((Inl e, self), w2)
         | (Inr response_data, w2) \<Rightarrow>
             (case py_subscript response_data ''token'' of
                Inl e \<Rightarrow> ((Inl e, self), w2)
              | Inr token \<Rightarrow> ((Inr response_data, self\<lparr>printer_token := token\<rparr>), w2))))"
  by (subst stateful_login.simps)
     (auto simp: generate_sign_now stateful_printer_request_no_auto
           split: prod.splits sum.splits)

lemma stateful_printer_request_unfold:
  "stateful_printer_request L self w auto_auth c =
     (case printer_request L self w c of
        (Inr response_data, w1) \<Rightarrow> ((Inr response_data, self), w1)
      | (Inl exc, w1) \<Rightarrow>
          if effective_auto_auth self auto_auth \<and> response_status exc = Some 401 then
            (case stateful_login L self w1 None TsNone no_kwargs of
               ((Inl e, self1), w2) \<Rightarrow> ((Inl e, self1), w2)
             | ((Inr login_data, self1), w2) \<Rightarrow>
                 (case printer_request L self1 w2 c of (r, w3) \<Rightarrow> ((r, self1), w3)))
          else ((Inl exc, self), w1))"
  by (subst stateful_printer_request.simps)
     (auto split: prod.splits sum.splits option.splits)

subsection \<open>The answer of the server\<close>

lemma handle_response_success:
  "spec_success r \<Longrightarrow> handle_response L r = Inr (spec_data r)"
  by (cases r rule: spec_success.cases) (auto split: option.splits)

lemma handle_response_failure:
  "\<not> spec_success r \<Longrightarrow> \<exists>e. handle_response L r = Inl e"
  by (cases r rule: spec_success.cases) (auto split: option.splits sum.splits)

lemma error_field_object:
  "spec_error_object kvs = Some err \<Longrightarrow>
     error_field (JObj kvs) key dflt = Inr (case map_of err key of None \<Rightarrow> dflt | Some v \<Rightarrow> v)"
  by (auto simp: spec_error_object_def error_field_def split: option.splits json.splits)

lemma api_error_code:
  assumes "spec_error_object kvs = Some err"
  shows "api_error L (JObj kvs) =
     (case py_int L (spec_error_code err) of
        Inl e \<Rightarrow>
          if int_handler_catches e
          then ClientError (''API Error: '' @ str_of L (spec_error_msg err)) else e
      | Inr n \<Rightarrow> APIResponseError n (spec_error_msg err))"
  by (auto simp: api_error_def error_field_object [OF assms] spec_error_code_def
        spec_error_msg_def split: sum.splits)

lemma handle_response_error:
  assumes "status < 400" and "\<not> spec_success (Http status (Inr (JObj kvs)))"
  shows "handle_response L (Http status (Inr (JObj kvs))) = Inl (api_error L (JObj kvs))"
  using assms by (auto split: option.splits)

lemmas example_defs =
  example_client_def example_world_def example_lib_def scripted_def answer_to_def
  build_request_def get_call_def prv1_def api_call_def ok_body_def error_body_def

subsection \<open>Requests that are sent, and the re-login\<close>

lemma retry_handled_transient:
  "retry_handled exc = (spec_transient exc \<or> api_error_429 exc)"
  by (cases exc) (auto simp: spec_transient_def)

lemma async_call_api_method_retry:
  assumes "method self w = ((Inl exc, self1), w1)" and "retry_handled exc"
  shows "async_call_api_method method self w = method self1 (backoff w1)"
    and "invocations (async_call_api_method (counted method) (self, 0) w) = 2"
  using assms
  by (auto simp: async_call_api_method_def counted_def invocations_def backoff_def
        split: prod.splits sum.splits)

lemma login_call_no_auth: "c_auth (login_call sign timestamp kw) = False"
  by (simp add: login_call_def prv1_def api_call_def)

lemma answer_to_after_clock: "answer_to (after_clock w) req = answer_to w req"
  by (simp add: answer_to_def after_clock_def)

lemma stateful_login_sent:
  assumes "\<not> session_closed self"
  shows "stateful_login L self w None TsNone no_kwargs =
     (case handle_response L (answer_to w (login_request L self w)) of
        Inl e \<Rightarrow> ((Inl e, self), after_send (after_clock w) (login_request L self w))
      | Inr response_data \<Rightarrow>
          (case py_subscript response_data ''token'' of
             Inl e \<Rightarrow> ((Inl e, self), after_send (after_clock w) (login_request L self w))
           | Inr token \<Rightarrow>
               ((Inr response_data, self\<lparr>printer_token := token\<rparr>),
                after_send (after_clock w) (login_request L self w))))"
proof -
  have "printer_request L self (after_clock w)
          (login_call (spec_sign L (printer_password self) (now_millis L w)) (now_millis L w) no_kwargs) =
        (handle_response L (answer_to w (login_request L self w)),
         after_send (after_clock w) (login_request L self w))"
    using assms
    by (simp add: printer_request_sent login_call_no_auth login_request_def after_send_def
          answer_to_after_clock)
  then show ?thesis
    by (simp add: stateful_login_unfold after_clock_def split: sum.splits)
qed

lemma stateful_printer_request_plain:
  assumes "\<not> session_closed self"
    and "c_auth c \<longrightarrow> truthy (printer_token self)"
    and "\<not> effective_auto_auth self auto_auth
         \<or> failure_status L (answer_to w (build_request self c)) \<noteq> Some 401"
  shows "stateful_printer_request L self w auto_auth c =
           ((handle_response L (answer_to w (build_request self c)), self),
            after_send w (build_request self c))"
  using assms
  by (auto simp: stateful_printer_request_unfold printer_request_sent after_send_def
        failure_status_def split: sum.splits)

lemma stateful_printer_request_relogin:
  assumes "\<not> session_closed self"
    and "c_auth c \<longrightarrow> truthy (printer_token self)"
    and "effective_auto_auth self auto_auth"
    and "failure_status L (answer_to w (build_request self c)) = Some 401"
    and "w1 = after_send w (build_request self c)"
    and "handle_response L (answer_to w1 (login_request L self w1)) = Inr login_data"
    and "py_subscript login_data ''token'' = Inr token"
    and "c_auth c \<longrightarrow> truthy token"
    and "w2 = after_send (after_clock w1) (login_request L self w1)"
    and "self2 = self\<lparr>printer_token := token\<rparr>"
    and "retry = answer_to w2 (build_request self2 c)"
  shows "stateful_printer_request L self w auto_auth c =
           ((handle_response L retry, self2), after_send w2 (build_request self2 c))"
proof -
  from assms(4) obtain exc where
    first: "handle_response L (answer_to w (build_request self c)) = Inl exc"
    and st: "response_status exc = Some 401"
    by (auto simp: failure_status_def split: sum.splits)
  have p1: "printer_request L self w c = (Inl exc, w1)"
    using assms(1,2,5) first by (simp add: printer_request_sent after_send_def)
  have lg: "stateful_login L self w1 None TsNone no_kwargs = ((Inr login_data, self2), w2)"
    using assms(1,6,7,9,10) by (simp add: stateful_login_sent)
  have p2: "printer_request L self2 w2 c =
              (handle_response L retry, after_send w2 (build_request self2 c))"
    using assms(1,8,10,11) by (simp add: printer_request_sent after_send_def)
  show ?thesis
    using assms(3) st by (simp add: stateful_printer_request_unfold p1 lg p2)
qed

lemma stateful_printer_request_login_fails:
  assumes "\<not> session_closed self"
    and "c_auth c \<longrightarrow> truthy (printer_token self)"
    and "effective_auto_auth self auto_auth"
    and "failure_status L (answer_to w (build_request self c)) = Some 401"
    and "w1 = after_send w (build_request self c)"
    and "w2 = after_send (after_clock w1) (login_request L self w1)"
    and "handle_response L (answer_to w1 (login_request L self w1)) = Inl e
         \<or> (\<exists>login_data. handle_response L (answer_to w1 (login_request L self w1)) = Inr login_data
               \<and> py_subscript login_data ''token'' = Inl e)"
  shows "stateful_printer_request L self w auto_auth c = ((Inl e, self), w2)"
proof -
  from assms(4) obtain exc where
    first: "handle_response L (answer_to w (build_request self c)) = Inl exc"
    and st: "response_status exc = Some 401"
    by (auto simp: failure_status_def split: sum.splits)
  have p1: "printer_request L self w c = (Inl exc, w1)"
    using assms(1,2,5) first by (simp add: printer_request_sent after_send_def)
  have lg: "stateful_login L self w1 None TsNone no_kwargs = ((Inl e, self), w2)"
    using assms(1,6,7) by (auto simp: stateful_login_sent)
  show ?thesis
    using assms(3) st by (simp add: stateful_printer_request_unfold p1 lg)
qed

lemma stateful_printer_request_after_401:
  assumes "\<not> session_closed self"
    and "c_auth c \<longrightarrow> truthy (printer_token self)"
    and "effective_auto_auth self auto_auth"
    and "failure_status L (answer_to w (build_request self c)) = Some 401"
    and "w1 = after_send w (build_request self c)"
    and "w2 = after_send (after_clock w1) (login_request L self w1)"
    and "login_answer = handle_response L (answer_to w1 (login_request L self w1))"
  shows "stateful_printer_request L self w auto_auth c =
     (case login_answer of
        Inl e \<Rightarrow> ((Inl e, self), w2)
      | Inr login_data \<Rightarrow>
          (case py_subscript login_data ''token'' of
             Inl e \<Rightarrow> ((Inl e, self), w2)
           | Inr token \<Rightarrow>
               if c_auth c \<and> \<not> truthy token then
                 ((Inl (ValueError ''Authentication token is required for this API call.''),
                   self\<lparr>printer_token := token\<rparr>), w2)
               else
                 ((handle_response L (answer_to w2 (build_request (self\<lparr>printer_token := token\<rparr>) c)),
                   self\<lparr>printer_token := token\<rparr>),
                  after_send w2 (build_request (self\<lparr>printer_token := token\<rparr>) c))))"
proof -
  from assms(4) obtain exc where
    first: "handle_response L (answer_to w (build_request self c)) = Inl exc"
    and st: "response_status exc = Some 401"
    by (auto simp: failure_status_def split: sum.splits)
  have p1: "printer_request L self w c = (Inl exc, w1)"
    using assms(1,2,5) first by (simp add: printer_request_sent after_send_def)
  have lg: "stateful_login L self w1 None TsNone no_kwargs =
      (case login_answer of
         Inl e \<Rightarrow> ((Inl e, self), w2)
       | Inr login_data \<Rightarrow>
           (case py_subscript login_data ''token'' of
              Inl e \<Rightarrow> ((Inl e, self), w2)
            | Inr token \<Rightarrow> ((Inr login_data, self\<lparr>printer_token := token\<rparr>), w2)))"
    using assms(1,6,7) by (simp add: stateful_login_sent split: sum.splits)
  have p2: "printer_request L (self\<lparr>printer_token := token\<rparr>) w2 c =
      (if c_auth c \<and> \<not> truthy token then
         (Inl (ValueError ''Authentication token is required for this API call.''), w2)
       else
         (handle_response L (answer_to w2 (build_request (self\<lparr>printer_token := token\<rparr>) c)),
          after_send w2 (build_request (self\<lparr>printer_token := token\<rparr>) c)))" for token
    using assms(1) by (simp add: printer_request_def answer_to_def after_send_def Let_def)
  show ?thesis
    using assms(3) st
    by (simp add: stateful_printer_request_unfold p1 lg p2 split: sum.splits)
qed

lemma stateful_operation_system:
  "stateful_operation L self w Get_system_info =
     stateful_printer_request L self w None (operation_call Get_system_info)"
  by (simp add: stateful_operation_def)

lemma stateful_operation_basic:
  "stateful_operation L self w Get_basic_info =
     stateful_printer_request L self w None (operation_call Get_basic_info)"
  by (simp add: stateful_operation_def)







lemma example_attempt:
  assumes "failure_status example_lib (answer_to w (build_request (example_client (JStr ''tok'') True)
             (operation_call Get_basic_info))) \<noteq> Some 401"
  shows "stateful_operation example_lib (example_client (JStr ''tok'') True) w Get_basic_info =
     ((handle_response example_lib
         (answer_to w (build_request (example_client (JStr ''tok'') True)
            (operation_call Get_basic_info))),
       example_client (JStr ''tok'') True),
      after_send w (build_request (example_client (JStr ''tok'') True)
        (operation_call Get_basic_info)))"
proof -
  let ?self = "example_client (JStr ''tok'') True"
  let ?c = "operation_call Get_basic_info"
  have h1: "\<not> session_closed ?self" by (simp add: example_client_def)
  have h2: "c_auth ?c \<longrightarrow> truthy (printer_token ?self)" by (simp add: example_client_def)
  show ?thesis
    unfolding stateful_operation_basic
    by (rule stateful_printer_request_plain [OF h1 h2 disjI2 [OF assms]])
qed

subsection \<open>Signature generation\<close>

text \<open>
  C1. The specification fixes a golden vector for the password "secret" and the integer
  millisecond timestamp 1700000000000. On that input \<^verbatim>\<open>generate_sign\<close> returns no
  signature: an \<^verbatim>\<open>int\<close> is not a \<^verbatim>\<open>float\<close>, so the second \<^verbatim>\<open>if\<close> takes its \<^verbatim>\<open>else\<close> branch
  and raises \<^verbatim>\<open>ValueError\<close>, whatever the digests are and without reading the clock.
\<close>

theorem generate_sign_rejects_int_timestamp:
  "generate_sign L ''secret'' (TsInt 1700000000000) w =
     (Inl (ValueError ''invalid timestamp argument''), w)"
  by (rule generate_sign_int)

subsection \<open>Login of the stateful client\<close>

text \<open>
  C9. A call of the stateful client's login with a signature and no timestamp raises
  \<^verbatim>\<open>ValueError\<close>; the client and the world are as before, so no request has been sent and
  the clock has not been read.
\<close>

theorem login_rejects_sign_without_timestamp:
  "stateful_login L self w (Some sign) TsNone kw =
     ((Inl (ValueError ''signature provided without timestamp''), self), w)"
  by (simp add: stateful_login_unfold)



subsection \<open>Closed session\<close>

text \<open>
  C8. With a closed session every request, whatever its method, endpoint, parameters and
  auth flag, and whatever the auto-authentication setting, raises \<^verbatim>\<open>RuntimeError\<close>, in the
  base client and in the stateful client alike. The world is unchanged: nothing is sent.
  \<^verbatim>\<open>RuntimeError\<close> is none of the network and application error classes: it has no
  response status and the transient-failure handler does not catch it.
\<close>

theorem closed_session_fails_fast:
  assumes "session_closed self"
  shows "printer_request L self w c = (Inl (RuntimeError ''Client session is closed!''), w)
       \<and> stateful_printer_request L self w auto_auth c =
           ((Inl (RuntimeError ''Client session is closed!''), self), w)
       \<and> response_status (RuntimeError ''Client session is closed!'') = None
       \<and> \<not> retry_handled (RuntimeError ''Client session is closed!'')
       \<and> (\<forall>m. RuntimeError ''Client session is closed!'' \<noteq> ClientError m)"
  using assms
  by (simp add: stateful_printer_request_unfold printer_request_closed)

theorem closed_session_fails_fast_witness:
  "session_closed ((example_client (JStr ''tok'') True)\<lparr>session_closed := True\<rparr>)
   \<and> fst (stateful_operation example_lib ((example_client (JStr ''tok'') True)\<lparr>session_closed := True\<rparr>)
        (example_world []) Get_system_info) =
       (Inl (RuntimeError ''Client session is closed!''),
        (example_client (JStr ''tok'') True)\<lparr>session_closed := True\<rparr>)
   \<and> sent (snd (stateful_operation example_lib ((example_client (JStr ''tok'') True)\<lparr>session_closed := True\<rparr>)
        (example_world []) Get_system_info)) = []"
  using closed_session_fails_fast [of "(example_client (JStr ''tok'') True)\<lparr>session_closed := True\<rparr>"
          example_lib "example_world []" "operation_call Get_system_info" None]
  by (simp add: stateful_operation_def example_client_def example_world_def)

subsection \<open>Requests without a token\<close>

text \<open>
  C2. A stateful client with an open session, no token and auto-authentication enabled is
  asked for \<^verbatim>\<open>get_system_info\<close>, a call that requires authentication. The base
  \<^verbatim>\<open>printer_request\<close> raises \<^verbatim>\<open>ValueError\<close>, which is no \<^verbatim>\<open>ClientResponseError\<close>, so the
  \<^verbatim>\<open>except\<close> clause of the stateful \<^verbatim>\<open>printer_request\<close> does not catch it: no login runs and
  nothing is sent, exactly as with auto-authentication disabled.
\<close>

theorem tokenless_request_is_not_authenticated:
  "stateful_operation L (example_client JNull True) w Get_system_info =
     ((Inl (ValueError ''Authentication token is required for this API call.''),
       example_client JNull True), w)
   \<and> stateful_operation L (example_client JNull False) w Get_system_info =
     ((Inl (ValueError ''Authentication token is required for this API call.''),
       example_client JNull False), w)"
  by (simp add: stateful_operation_def stateful_printer_request_unfold printer_request_def
        example_client_def get_call_def prv1_def api_call_def)

subsection \<open>Success and application errors\<close>

text \<open>
  C5. A request that is sent (open session, token held when the call requires it) returns
  normally exactly when the answer is a success in the specification's sense, HTTP 200 with
  the JSON field \<open>status\<close> equal to 1, and then it returns the JSON field \<open>data\<close> as it
  is (\<^verbatim>\<open>None\<close> when the body has no such field). Every other answer makes the call raise.
\<close>

theorem success_returns_data_unchanged:
  assumes "\<not> session_closed self" and "c_auth c \<longrightarrow> truthy (printer_token self)"
  shows "(spec_success (answer_to w (build_request self c)) \<longrightarrow>
            fst (printer_request L self w c) = Inr (spec_data (answer_to w (build_request self c))))
       \<and> (\<not> spec_success (answer_to w (build_request self c)) \<longrightarrow>
            (\<exists>e. fst (printer_request L self w c) = Inl e))"
  using assms
  by (simp add: printer_request_sent handle_response_success handle_response_failure)

theorem success_returns_data_unchanged_witness:
  "\<not> session_closed (example_client (JStr ''tok'') True)
   \<and> c_auth (operation_call Get_basic_info)
   \<and> truthy (printer_token (example_client (JStr ''tok'') True))
   \<and> spec_success (answer_to (example_world [Http 200 (Inr (ok_body (JInt 7)))])
         (build_request (example_client (JStr ''tok'') True) (operation_call Get_basic_info)))
   \<and> fst (printer_request example_lib (example_client (JStr ''tok'') True)
         (example_world [Http 200 (Inr (ok_body (JInt 7)))]) (operation_call Get_basic_info)) = Inr (JInt 7)
   \<and> \<not> spec_success (answer_to (example_world [Http 201 (Inr (ok_body (JInt 7)))])
         (build_request (example_client (JStr ''tok'') True) (operation_call Get_basic_info)))
   \<and> (\<exists>e. fst (printer_request example_lib (example_client (JStr ''tok'') True)
         (example_world [Http 201 (Inr (ok_body (JInt 7)))]) (operation_call Get_basic_info)) = Inl e)"
proof -
  let ?self = "example_client (JStr ''tok'') True"
  let ?c = "operation_call Get_basic_info"
  let ?w = "example_world [Http 200 (Inr (ok_body (JInt 7)))]"
  let ?w' = "example_world [Http 201 (Inr (ok_body (JInt 7)))]"
  have h1: "\<not> session_closed ?self" by (simp add: example_client_def)
  have h2: "c_auth ?c \<longrightarrow> truthy (printer_token ?self)" by (simp add: example_client_def)
  have hc: "c_auth ?c" by (simp add: get_call_def prv1_def api_call_def)
  have ht: "truthy (printer_token ?self)" by (simp add: example_client_def)
  have s: "spec_success (answer_to ?w (build_request ?self ?c))"
    by (simp add: example_defs)
  have d: "spec_data (answer_to ?w (build_request ?self ?c)) = JInt 7"
    by (simp add: example_defs)
  have f: "\<not> spec_success (answer_to ?w' (build_request ?self ?c))"
    by (simp add: example_defs)
  from success_returns_data_unchanged [where L = example_lib and w = ?w, OF h1 h2] s d
  have r: "fst (printer_request example_lib ?self ?w ?c) = Inr (JInt 7)" by simp
  from success_returns_data_unchanged [where L = example_lib and w = ?w', OF h1 h2] f
  have r': "\<exists>e. fst (printer_request example_lib ?self ?w' ?c) = Inl e" by blast
  from h1 hc ht s r f r' show ?thesis by blast
qed

text \<open>
  C6 as stated fails for every HTTP status from 400 on. The session is asked to raise for
  the status, so a 404 whose JSON body carries the integer code 5 and a message raises the
  transport's \<^verbatim>\<open>ClientResponseError\<close> with status 404; the body is never read and no
  \<open>APIResponseError\<close> with code 5 is raised.
\<close>

theorem http_error_status_counterexample:
  "py_int example_lib (JInt 5) = Inr 5
   \<and> fst (printer_request example_lib (example_client (JStr ''tok'') True)
         (example_world [Http 404 (Inr (error_body (JInt 5) (JStr ''no such file'')))])
         (operation_call Get_basic_info)) = Inl (ClientResponseError 404)
   \<and> fst (printer_request example_lib (example_client (JStr ''tok'') True)
         (example_world [Http 404 (Inr (error_body (JInt 5) (JStr ''no such file'')))])
         (operation_call Get_basic_info)) \<noteq> Inl (APIResponseError 5 (JStr ''no such file''))"
  by (simp add: printer_request_def example_defs Let_def)

text \<open>
  C6, amended. For a request that is sent: an HTTP status from 400 on raises
  \<^verbatim>\<open>ClientResponseError\<close> carrying that status, whatever the body. For a status below 400
  that is not a success, with a JSON object as body whose \<open>error\<close> field is absent or an
  object: when \<^verbatim>\<open>int()\<close> of \<open>error.code\<close> yields \<open>n\<close>, the call raises \<open>APIResponseError\<close>
  with status \<open>n\<close> and message \<open>error.msg\<close>; when \<^verbatim>\<open>int()\<close> raises \<^verbatim>\<open>TypeError\<close> or
  \<^verbatim>\<open>ValueError\<close> (the code is absent, null, a list or an object, a string that is no
  numeral, or a NaN), it raises the generic \<^verbatim>\<open>ClientError\<close>. An infinite float as code,
  for which \<^verbatim>\<open>int()\<close> raises \<^verbatim>\<open>OverflowError\<close>, is not covered.
\<close>

theorem error_code_selects_error_kind:
  assumes "\<not> session_closed self" and "c_auth c \<longrightarrow> truthy (printer_token self)"
    and "answer_to w (build_request self c) = Http status body"
  shows "(400 \<le> status \<longrightarrow>
            fst (printer_request L self w c) = Inl (ClientResponseError (int status)))
       \<and> (status < 400 \<longrightarrow> (\<forall>kvs err. body = Inr (JObj kvs) \<longrightarrow>
            \<not> spec_success (Http status body) \<longrightarrow> spec_error_object kvs = Some err \<longrightarrow>
              (\<forall>n. py_int L (spec_error_code err) = Inr n \<longrightarrow>
                 fst (printer_request L self w c) = Inl (APIResponseError n (spec_error_msg err)))
            \<and> (\<forall>e. py_int L (spec_error_code err) = Inl e
                    \<and> (e = TypeError \<or> (\<exists>m. e = ValueError m)) \<longrightarrow>
                 fst (printer_request L self w c) =
                   Inl (ClientError (''API Error: '' @ str_of L (spec_error_msg err))))))"
proof -
  have res: "fst (printer_request L self w c) = handle_response L (Http status body)"
    using assms by (simp add: printer_request_sent)
  have high: "400 \<le> status \<Longrightarrow> handle_response L (Http status body) = Inl (ClientResponseError (int status))"
    by simp
  have low: "handle_response L (Http status body) =
               Inl (case py_int L (spec_error_code err) of
                      Inl e \<Rightarrow>
                        if int_handler_catches e
                        then ClientError (''API Error: '' @ str_of L (spec_error_msg err)) else e
                    | Inr n \<Rightarrow> APIResponseError n (spec_error_msg err))"
    if "status < 400" "body = Inr (JObj kvs)" "\<not> spec_success (Http status body)"
       "spec_error_object kvs = Some err" for kvs err
  proof -
    have "handle_response L (Http status (Inr (JObj kvs))) = Inl (api_error L (JObj kvs))"
      using that(1,3) unfolding that(2) by (rule handle_response_error)
    then show ?thesis
      unfolding that(2) api_error_code [OF that(4)] .
  qed
  show ?thesis
    unfolding res using high low by (auto split: sum.splits)
qed

theorem error_code_selects_error_kind_witness:
  "\<not> session_closed (example_client (JStr ''tok'') True)
   \<and> c_auth (operation_call Get_basic_info)
   \<and> truthy (printer_token (example_client (JStr ''tok'') True))
   \<and> fst (printer_request example_lib (example_client (JStr ''tok'') True)
         (example_world [Http 200 (Inr (error_body (JStr ''12'') (JStr ''busy'')))])
         (operation_call Get_basic_info)) = Inl (APIResponseError 12 (JStr ''busy''))
   \<and> fst (printer_request example_lib (example_client (JStr ''tok'') True)
         (example_world [Http 200 (Inr (error_body (JStr ''E12'') (JStr ''busy'')))])
         (operation_call Get_basic_info)) = Inl (ClientError ''API Error: busy'')
   \<and> fst (printer_request example_lib (example_client (JStr ''tok'') True)
         (example_world [Http 503 (Inr (error_body (JStr ''12'') (JStr ''busy'')))])
         (operation_call Get_basic_info)) = Inl (ClientResponseError 503)"
proof -
  let ?self = "example_client (JStr ''tok'') True"
  let ?c = "operation_call Get_basic_info"
  let ?kvs = "\<lambda>code. [(''status'', JInt 0), (''error'', JObj [(''code'', code), (''msg'', JStr ''busy'')])]"
  let ?err = "\<lambda>code. [(''code'', code), (''msg'', JStr ''busy'')]"
  let ?w = "\<lambda>st code. example_world [Http st (Inr (error_body code (JStr ''busy'')))]"
  have h1: "\<not> session_closed ?self" by (simp add: example_client_def)
  have h2: "c_auth ?c \<longrightarrow> truthy (printer_token ?self)" by (simp add: example_client_def)
  have hc: "c_auth ?c" by (simp add: get_call_def prv1_def api_call_def)
  have ht: "truthy (printer_token ?self)" by (simp add: example_client_def)
  have a: "answer_to (?w st code) (build_request ?self ?c) = Http st (Inr (JObj (?kvs code)))"
    for st code by (simp add: example_defs)
  have ns: "\<not> spec_success (Http 200 (Inr (JObj (?kvs code))))" for code by simp
  have eo: "spec_error_object (?kvs code) = Some (?err code)" for code
    by (simp add: spec_error_object_def)
  have cm: "spec_error_code (?err code) = code" "spec_error_msg (?err code) = JStr ''busy''" for code
    by (simp_all add: spec_error_code_def spec_error_msg_def)
  have i1: "py_int example_lib (JStr ''12'') = Inr 12"
    by (simp add: example_lib_def ascii_int_of_str_def)
  have i2: "py_int example_lib (JStr ''E12'') = Inl (ValueError ''invalid literal for int() with base 10'')"
    by (simp add: example_lib_def ascii_int_of_str_def)
  have st: "str_of example_lib (JStr ''busy'') = ''busy''"
    by (simp add: example_lib_def)
  from error_code_selects_error_kind [where L = example_lib, OF h1 h2 a [of 200 "JStr ''12''"]] ns eo cm i1
  have r1: "fst (printer_request example_lib ?self (?w 200 (JStr ''12'')) ?c) =
              Inl (APIResponseError 12 (JStr ''busy''))"
    by simp
  from error_code_selects_error_kind [where L = example_lib, OF h1 h2 a [of 200 "JStr ''E12''"]] ns eo cm i2 st
  have r2: "fst (printer_request example_lib ?self (?w 200 (JStr ''E12'')) ?c) =
              Inl (ClientError ''API Error: busy'')"
    by simp
  from error_code_selects_error_kind [where L = example_lib, OF h1 h2 a [of 503 "JStr ''12''"]]
  have r3: "fst (printer_request example_lib ?self (?w 503 (JStr ''12'')) ?c) =
              Inl (ClientResponseError 503)"
    by simp
  from h1 hc ht r1 r2 r3 show ?thesis by blast
qed

subsection \<open>Re-authentication after a 401\<close>

text \<open>
  C3 as stated fails when the login itself fails. The first attempt of \<^verbatim>\<open>get_system_info\<close>
  is answered with 401 and the login that follows with 403 (say, a wrong password): the
  error of the login is raised to the caller, and the two requests sent are the original
  one and the login. The original request is not retried.
\<close>

theorem failed_login_not_retried_counterexample:
  "failure_status example_lib
      (answer_to (example_world [Http 401 (Inr JNull), Http 403 (Inr JNull)])
         (build_request (example_client (JStr ''old'') True) (operation_call Get_system_info)))
     = Some 401
   \<and> fst (stateful_operation example_lib (example_client (JStr ''old'') True)
            (example_world [Http 401 (Inr JNull), Http 403 (Inr JNull)]) Get_system_info)
     = (Inl (ClientResponseError 403), example_client (JStr ''old'') True)
   \<and> map req_url (sent (snd (stateful_operation example_lib (example_client (JStr ''old'') True)
            (example_world [Http 401 (Inr JNull), Http 403 (Inr JNull)]) Get_system_info)))
     = [''http://192.168.1.50:10800/v1/printer/system'', ''http://192.168.1.50:10800/v1/login'']"
proof -
  let ?self = "example_client (JStr ''old'') True"
  let ?c = "operation_call Get_system_info"
  let ?w = "example_world [Http 401 (Inr JNull), Http 403 (Inr JNull)]"
  let ?w1 = "after_send ?w (build_request ?self ?c)"
  let ?w2 = "after_send (after_clock ?w1) (login_request example_lib ?self ?w1)"
  have h1: "\<not> session_closed ?self" by (simp add: example_client_def)
  have h2: "c_auth ?c \<longrightarrow> truthy (printer_token ?self)" by (simp add: example_client_def)
  have h3: "effective_auto_auth ?self None"
    by (simp add: effective_auto_auth_def example_client_def)
  have a1: "answer_to ?w (build_request ?self ?c) = Http 401 (Inr JNull)"
    by (simp add: answer_to_def example_world_def scripted_def)
  have h4: "failure_status example_lib (answer_to ?w (build_request ?self ?c)) = Some 401"
    unfolding failure_status_def a1 by simp
  have a2: "answer_to ?w1 (login_request example_lib ?self ?w1) = Http 403 (Inr JNull)"
    by (simp add: answer_to_def after_send_def example_world_def scripted_def)
  have h7: "handle_response example_lib (answer_to ?w1 (login_request example_lib ?self ?w1)) =
              Inl (ClientResponseError 403)"
    unfolding a2 by simp
  have run: "stateful_operation example_lib ?self ?w Get_system_info =
               ((Inl (ClientResponseError 403), ?self), ?w2)"
    unfolding stateful_operation_system
    by (rule stateful_printer_request_login_fails [OF h1 h2 h3 h4 refl refl disjI1 [OF h7]])
  have urls: "map req_url (sent ?w2) =
      [''http://192.168.1.50:10800/v1/printer/system'', ''http://192.168.1.50:10800/v1/login'']"
    by (simp add: after_send_def after_clock_def login_request_def build_request_def
          login_call_def get_call_def prv1_def api_call_def example_world_def example_client_def)
  show ?thesis
    unfolding run using h4 urls by simp
qed

text \<open>
  C3, amended. The stateful client sends a request with auto-authentication in effect, and
  the first attempt fails with status 401. Then, in every case, exactly one login request
  follows the original request, the clock is read once, and at most one further request is
  sent, which is the original one again with the token of the login. When the login
  succeeds (its answer is a success whose data holds a token, and the token is not empty
  if the call requires one), exactly three requests are sent, the original one, the login,
  and the original one again with the new token; the caller gets what the retried request
  yields: its \<open>data\<close> when it is a success, and the second 401 as an error when it fails
  with 401 again, with no further login or retry. When the login raises, or its data holds
  no token, that error is raised to the caller and the original request is not sent again.
  When the login yields an empty token and the call requires one, the token is stored and
  the second attempt raises the missing-token \<^verbatim>\<open>ValueError\<close> without sending a request.
\<close>

theorem reauthentication_after_401:
  assumes "\<not> session_closed self"
    and "c_auth c \<longrightarrow> truthy (printer_token self)"
    and "effective_auto_auth self auto_auth"
    and "failure_status L (answer_to w (build_request self c)) = Some 401"
    and "w1 = after_send w (build_request self c)"
    and "w2 = after_send (after_clock w1) (login_request L self w1)"
    and "login_answer = handle_response L (answer_to w1 (login_request L self w1))"
  shows "(\<forall>login_data token self2 retry.
            login_answer = Inr login_data \<and> py_subscript login_data ''token'' = Inr token
            \<and> (c_auth c \<longrightarrow> truthy token)
            \<and> self2 = self\<lparr>printer_token := token\<rparr>
            \<and> retry = answer_to w2 (build_request self2 c) \<longrightarrow>
              stateful_printer_request L self w auto_auth c =
                ((handle_response L retry, self2), after_send w2 (build_request self2 c))
            \<and> sent (after_send w2 (build_request self2 c)) =
                sent w @ [build_request self c, login_request L self w1, build_request self2 c]
            \<and> clock_reads (after_send w2 (build_request self2 c)) = Suc (clock_reads w)
            \<and> (spec_success retry \<longrightarrow>
                 fst (fst (stateful_printer_request L self w auto_auth c)) = Inr (spec_data retry))
            \<and> (failure_status L retry = Some 401 \<longrightarrow>
                 (\<exists>e. fst (fst (stateful_printer_request L self w auto_auth c)) = Inl e
                      \<and> response_status e = Some 401)))
       \<and> (\<forall>e. login_answer = Inl e
               \<or> (\<exists>login_data. login_answer = Inr login_data
                     \<and> py_subscript login_data ''token'' = Inl e) \<longrightarrow>
              stateful_printer_request L self w auto_auth c = ((Inl e, self), w2)
            \<and> sent w2 = sent w @ [build_request self c, login_request L self w1])
       \<and> (\<forall>login_data token.
            login_answer = Inr login_data \<and> py_subscript login_data ''token'' = Inr token
            \<and> c_auth c \<and> \<not> truthy token \<longrightarrow>
              stateful_printer_request L self w auto_auth c =
                ((Inl (ValueError ''Authentication token is required for this API call.''),
                  self\<lparr>printer_token := token\<rparr>), w2))
       \<and> sent w2 = sent w @ [build_request self c, login_request L self w1]
       \<and> clock_reads (snd (stateful_printer_request L self w auto_auth c)) = Suc (clock_reads w)
       \<and> (sent (snd (stateful_printer_request L self w auto_auth c)) = sent w2
          \<or> (\<exists>token. sent (snd (stateful_printer_request L self w auto_auth c)) =
                sent w2 @ [build_request (self\<lparr>printer_token := token\<rparr>) c]))"
proof (intro conjI allI impI)
  fix login_data token self2 retry
  assume a: "login_answer = Inr login_data \<and> py_subscript login_data ''token'' = Inr token
            \<and> (c_auth c \<longrightarrow> truthy token)
            \<and> self2 = self\<lparr>printer_token := token\<rparr>
            \<and> retry = answer_to w2 (build_request self2 c)"
  have lg: "handle_response L (answer_to w1 (login_request L self w1)) = Inr login_data"
    using a assms(7) by simp
  show main: "stateful_printer_request L self w auto_auth c =
           ((handle_response L retry, self2), after_send w2 (build_request self2 c))"
    using assms(1-5) lg a assms(6)
    by (intro stateful_printer_request_relogin [where ?w1.0 = w1 and login_data = login_data
          and token = token]) simp_all
  show "sent (after_send w2 (build_request self2 c)) =
          sent w @ [build_request self c, login_request L self w1, build_request self2 c]"
    using assms(5,6) by (simp add: after_send_def after_clock_def)
  show "clock_reads (after_send w2 (build_request self2 c)) = Suc (clock_reads w)"
    using assms(5,6) by (simp add: after_send_def after_clock_def)
  show "fst (fst (stateful_printer_request L self w auto_auth c)) = Inr (spec_data retry)"
    if "spec_success retry"
    unfolding main using that by (simp add: handle_response_success)
  show "\<exists>e. fst (fst (stateful_printer_request L self w auto_auth c)) = Inl e
            \<and> response_status e = Some 401"
    if "failure_status L retry = Some 401"
    unfolding main using that by (auto simp: failure_status_def split: sum.splits)
next
  fix e
  assume "login_answer = Inl e
          \<or> (\<exists>login_data. login_answer = Inr login_data
                \<and> py_subscript login_data ''token'' = Inl e)"
  then show "stateful_printer_request L self w auto_auth c = ((Inl e, self), w2)"
    using assms by (intro stateful_printer_request_login_fails [where ?w1.0 = w1]) simp_all
  show "sent w2 = sent w @ [build_request self c, login_request L self w1]"
    using assms(5,6) by (simp add: after_send_def after_clock_def)
next
  fix login_data token
  assume "login_answer = Inr login_data \<and> py_subscript login_data ''token'' = Inr token
          \<and> c_auth c \<and> \<not> truthy token"
  then show "stateful_printer_request L self w auto_auth c =
      ((Inl (ValueError ''Authentication token is required for this API call.''),
        self\<lparr>printer_token := token\<rparr>), w2)"
    by (simp add: stateful_printer_request_after_401 [OF assms])
next
  show "sent w2 = sent w @ [build_request self c, login_request L self w1]"
    using assms(5,6) by (simp add: after_send_def after_clock_def)
next
  show "clock_reads (snd (stateful_printer_request L self w auto_auth c)) = Suc (clock_reads w)"
    unfolding stateful_printer_request_after_401 [OF assms]
    using assms(5,6) by (simp add: after_send_def after_clock_def split: sum.splits)
next
  show "sent (snd (stateful_printer_request L self w auto_auth c)) = sent w2
        \<or> (\<exists>token. sent (snd (stateful_printer_request L self w auto_auth c)) =
              sent w2 @ [build_request (self\<lparr>printer_token := token\<rparr>) c])"
    unfolding stateful_printer_request_after_401 [OF assms]
    by (auto simp: after_send_def split: sum.splits)
qed

theorem reauthentication_after_401_witness:
  "\<not> session_closed (example_client (JStr ''old'') True)
   \<and> effective_auto_auth (example_client (JStr ''old'') True) None
   \<and> failure_status example_lib
        (answer_to (example_world (relogin_script (Http 200 (Inr (ok_body (JInt 7))))))
           (build_request (example_client (JStr ''old'') True) (operation_call Get_system_info)))
        = Some 401
   \<and> fst (stateful_printer_request example_lib (example_client (JStr ''old'') True)
            (example_world (relogin_script (Http 200 (Inr (ok_body (JInt 7))))))
            None (operation_call Get_system_info))
        = (Inr (JInt 7), example_client (JStr ''new'') True)
   \<and> length (sent (snd (stateful_printer_request example_lib (example_client (JStr ''old'') True)
            (example_world (relogin_script (Http 200 (Inr (ok_body (JInt 7))))))
            None (operation_call Get_system_info)))) = 3
   \<and> fst (stateful_printer_request example_lib (example_client (JStr ''old'') True)
            (example_world (relogin_script (Http 401 (Inr JNull))))
            None (operation_call Get_system_info))
        = (Inl (ClientResponseError 401), example_client (JStr ''new'') True)
   \<and> length (sent (snd (stateful_printer_request example_lib (example_client (JStr ''old'') True)
            (example_world (relogin_script (Http 401 (Inr JNull))))
            None (operation_call Get_system_info)))) = 3"
proof -
  let ?self = "example_client (JStr ''old'') True"
  let ?c = "operation_call Get_system_info"
  let ?w = "\<lambda>r. example_world (relogin_script r)"
  let ?w1 = "\<lambda>r. after_send (?w r) (build_request ?self ?c)"
  let ?w2 = "\<lambda>r. after_send (after_clock (?w1 r)) (login_request example_lib ?self (?w1 r))"
  let ?self2 = "?self\<lparr>printer_token := JStr ''new''\<rparr>"
  let ?data = "JObj [(''token'', JStr ''new'')]"
  have h1: "\<not> session_closed ?self" by (simp add: example_client_def)
  have h2: "c_auth ?c \<longrightarrow> truthy (printer_token ?self)" by (simp add: example_client_def)
  have h3: "effective_auto_auth ?self None"
    by (simp add: effective_auto_auth_def example_client_def)
  have a1: "answer_to (?w r) (build_request ?self ?c) = Http 401 (Inr JNull)" for r
    by (simp add: answer_to_def example_world_def relogin_script_def scripted_def)
  have h4: "failure_status example_lib (answer_to (?w r) (build_request ?self ?c)) = Some 401" for r
    unfolding failure_status_def a1 by simp
  have a2: "answer_to (?w1 r) (login_request example_lib ?self (?w1 r)) =
              Http 200 (Inr (ok_body ?data))" for r
    by (simp add: answer_to_def after_send_def example_world_def relogin_script_def scripted_def)
  have h6: "handle_response example_lib (answer_to (?w1 r) (login_request example_lib ?self (?w1 r))) =
              Inr ?data" for r
    unfolding a2 by (simp add: ok_body_def)
  have prem: "handle_response example_lib (answer_to (?w1 r) (login_request example_lib ?self (?w1 r)))
                = Inr ?data
              \<and> py_subscript ?data ''token'' = Inr (JStr ''new'')
              \<and> (c_auth ?c \<longrightarrow> truthy (JStr ''new''))
              \<and> ?self2 = ?self\<lparr>printer_token := JStr ''new''\<rparr>
              \<and> answer_to (?w2 r) (build_request ?self2 ?c) = answer_to (?w2 r) (build_request ?self2 ?c)"
    for r
    using h6 [of r] by simp
  have a3: "answer_to (?w2 r) req = r" for r req
    by (simp add: answer_to_def after_send_def after_clock_def example_world_def
          relogin_script_def scripted_def)
  have s2: "?self2 = example_client (JStr ''new'') True"
    by (simp add: example_client_def)
  note t = conjunct1 [OF reauthentication_after_401 [where L = example_lib and auto_auth = None,
      OF h1 h2 h3 h4 refl refl refl], rule_format, OF prem]
  have ln: "length (sent (?w r) @ [x, y, z]) = 3" for r x y z
    by (simp add: example_world_def)
  have r7: "handle_response example_lib (Http 200 (Inr (ok_body (JInt 7)))) = Inr (JInt 7)"
    by (simp add: ok_body_def)
  have r401: "handle_response example_lib (Http 401 (Inr JNull)) = Inl (ClientResponseError 401)"
    by simp
  note t7 = t [of "Http 200 (Inr (ok_body (JInt 7)))"]
  have g1: "fst (stateful_printer_request example_lib ?self (?w (Http 200 (Inr (ok_body (JInt 7))))) None ?c)
              = (Inr (JInt 7), example_client (JStr ''new'') True)"
    by (simp only: conjunct1 [OF t7] fst_conv a3 s2 r7)
  have g2: "length (sent (snd (stateful_printer_request example_lib ?self
                (?w (Http 200 (Inr (ok_body (JInt 7))))) None ?c))) = 3"
    by (simp only: conjunct1 [OF t7] snd_conv conjunct1 [OF conjunct2 [OF t7]] ln)
  note t4 = t [of "Http 401 (Inr JNull)"]
  have g3: "fst (stateful_printer_request example_lib ?self (?w (Http 401 (Inr JNull))) None ?c)
              = (Inl (ClientResponseError 401), example_client (JStr ''new'') True)"
    by (simp only: conjunct1 [OF t4] fst_conv a3 s2 r401)
  have g4: "length (sent (snd (stateful_printer_request example_lib ?self
                (?w (Http 401 (Inr JNull))) None ?c))) = 3"
    by (simp only: conjunct1 [OF t4] snd_conv conjunct1 [OF conjunct2 [OF t4]] ln)
  from h1 h3 h4 g1 g2 g3 g4 show ?thesis by blast
qed

subsection \<open>The stored password and token\<close>




subsection \<open>Transient failures\<close>

text \<open>
  C4 as stated fails for an application-level error with code 429. The first answer has
  HTTP status 200 and a body whose \<open>error.code\<close> is 429, so the call fails with
  \<open>APIResponseError\<close>, which is none of the three failures the claim lists. It is a
  \<^verbatim>\<open>ClientResponseError\<close> whose status attribute is 429, and the handler does not let it
  propagate: it sleeps 1.5 seconds and calls the method a second time.
\<close>

theorem api_error_429_is_retried_counterexample:
  "answer_to (example_world [Http 200 (Inr (error_body (JInt 429) (JStr ''busy''))),
                             Http 200 (Inr (ok_body (JInt 7)))])
      (build_request (example_client (JStr ''tok'') True) (operation_call Get_basic_info))
     = Http 200 (Inr (error_body (JInt 429) (JStr ''busy'')))
   \<and> fst (stateful_operation example_lib (example_client (JStr ''tok'') True)
        (example_world [Http 200 (Inr (error_body (JInt 429) (JStr ''busy''))),
                        Http 200 (Inr (ok_body (JInt 7)))]) Get_basic_info)
     = (Inl (APIResponseError 429 (JStr ''busy'')), example_client (JStr ''tok'') True)
   \<and> \<not> spec_transient (APIResponseError 429 (JStr ''busy''))
   \<and> fst (async_call_api_method (\<lambda>self w. stateful_operation example_lib self w Get_basic_info)
            (example_client (JStr ''tok'') True)
            (example_world [Http 200 (Inr (error_body (JInt 429) (JStr ''busy''))),
                            Http 200 (Inr (ok_body (JInt 7)))]))
       = (Inr (JInt 7), example_client (JStr ''tok'') True)
   \<and> slept (snd (async_call_api_method (\<lambda>self w. stateful_operation example_lib self w Get_basic_info)
            (example_client (JStr ''tok'') True)
            (example_world [Http 200 (Inr (error_body (JInt 429) (JStr ''busy''))),
                            Http 200 (Inr (ok_body (JInt 7)))])))
       = [3 / 2]
   \<and> invocations (async_call_api_method
            (counted (\<lambda>self w. stateful_operation example_lib self w Get_basic_info))
            (example_client (JStr ''tok'') True, 0)
            (example_world [Http 200 (Inr (error_body (JInt 429) (JStr ''busy''))),
                            Http 200 (Inr (ok_body (JInt 7)))])) = 2"
proof -
  let ?m = "\<lambda>self w. stateful_operation example_lib self w Get_basic_info"
  let ?self = "example_client (JStr ''tok'') True"
  let ?c = "operation_call Get_basic_info"
  let ?w = "example_world [Http 200 (Inr (error_body (JInt 429) (JStr ''busy''))),
                           Http 200 (Inr (ok_body (JInt 7)))]"
  let ?w1 = "after_send ?w (build_request ?self ?c)"
  have a1: "answer_to ?w (build_request ?self ?c) =
              Http 200 (Inr (error_body (JInt 429) (JStr ''busy'')))"
    by (simp add: answer_to_def example_world_def scripted_def)
  have a2: "answer_to (backoff ?w1) (build_request ?self ?c) = Http 200 (Inr (ok_body (JInt 7)))"
    by (simp add: answer_to_def backoff_def after_send_def example_world_def scripted_def)
  have r1: "handle_response example_lib (Http 200 (Inr (error_body (JInt 429) (JStr ''busy'')))) =
              Inl (APIResponseError 429 (JStr ''busy''))"
    by (simp add: error_body_def api_error_def error_field_def)
  have r2: "handle_response example_lib (Http 200 (Inr (ok_body (JInt 7)))) = Inr (JInt 7)"
    by (simp add: ok_body_def)
  have f1: "failure_status example_lib (answer_to ?w (build_request ?self ?c)) \<noteq> Some 401"
    unfolding a1 failure_status_def r1 by simp
  have f2: "failure_status example_lib (answer_to (backoff ?w1) (build_request ?self ?c)) \<noteq> Some 401"
    unfolding a2 failure_status_def r2 by simp
  have first: "?m ?self ?w = ((Inl (APIResponseError 429 (JStr ''busy'')), ?self), ?w1)"
    unfolding example_attempt [OF f1] a1 r1 ..
  have second: "?m ?self (backoff ?w1) =
      ((Inr (JInt 7), ?self), after_send (backoff ?w1) (build_request ?self ?c))"
    unfolding example_attempt [OF f2] a2 r2 ..
  have rh: "retry_handled (APIResponseError 429 (JStr ''busy''))" by simp
  note e = async_call_api_method_retry(1) [of ?m, OF first rh]
  note n = async_call_api_method_retry(2) [of ?m, OF first rh]
  have ns: "\<not> spec_transient (APIResponseError 429 (JStr ''busy''))"
    by (simp add: spec_transient_def)
  have g0: "fst (?m ?self ?w) = (Inl (APIResponseError 429 (JStr ''busy'')), ?self)"
    unfolding first by simp
  have g1: "fst (async_call_api_method ?m ?self ?w) = (Inr (JInt 7), ?self)"
    unfolding e second by simp
  have g2: "slept (snd (async_call_api_method ?m ?self ?w)) = [3 / 2]"
    unfolding e second by (simp add: after_send_def backoff_def example_world_def)
  from a1 g0 ns g1 g2 n show ?thesis by blast
qed

text \<open>
  C4, amended. Let the first invocation of the wrapped method end with result \<open>r1\<close>. If it
  failed with a connection-aborted error, a connection reset by peer (errno 104), HTTP 429,
  or an application-level API error whose code is 429, the handler sleeps 1.5 seconds and
  its outcome, value and state alike, is that of one further invocation, whether that one
  fails or succeeds: the method runs twice. If it failed in any other way the error
  propagates at once, without sleep, and the method has run once. A success is returned as
  it is.
\<close>

theorem transient_failure_retried_once:
  assumes "method self w = ((r1, self1), w1)"
  shows "(\<forall>exc. r1 = Inl exc \<and> (spec_transient exc \<or> api_error_429 exc) \<longrightarrow>
            async_call_api_method method self w = method self1 (backoff w1)
          \<and> invocations (async_call_api_method (counted method) (self, 0) w) = 2)
       \<and> (\<forall>exc. r1 = Inl exc \<and> \<not> spec_transient exc \<and> \<not> api_error_429 exc \<longrightarrow>
            async_call_api_method method self w = ((Inl exc, self1), w1)
          \<and> invocations (async_call_api_method (counted method) (self, 0) w) = 1)
       \<and> (\<forall>v. r1 = Inr v \<longrightarrow>
            async_call_api_method method self w = ((Inr v, self1), w1)
          \<and> invocations (async_call_api_method (counted method) (self, 0) w) = 1)"
  using assms
  by (auto simp: async_call_api_method_def counted_def invocations_def backoff_def
        retry_handled_transient split: prod.splits sum.splits)

theorem transient_failure_retried_once_witness:
  "(\<lambda>self w. stateful_operation example_lib self w Get_basic_info)
       (example_client (JStr ''tok'') True)
       (example_world [Http 429 (Inr JNull), Http 200 (Inr (ok_body (JInt 7)))])
     = ((Inl (ClientResponseError 429), example_client (JStr ''tok'') True),
        after_send (example_world [Http 429 (Inr JNull), Http 200 (Inr (ok_body (JInt 7)))])
          (build_request (example_client (JStr ''tok'') True) (operation_call Get_basic_info)))
   \<and> spec_transient (ClientResponseError 429)
   \<and> fst (async_call_api_method (\<lambda>self w. stateful_operation example_lib self w Get_basic_info)
            (example_client (JStr ''tok'') True)
            (example_world [Http 429 (Inr JNull), Http 200 (Inr (ok_body (JInt 7)))]))
       = (Inr (JInt 7), example_client (JStr ''tok'') True)
   \<and> slept (snd (async_call_api_method (\<lambda>self w. stateful_operation example_lib self w Get_basic_info)
            (example_client (JStr ''tok'') True)
            (example_world [Http 429 (Inr JNull), Http 200 (Inr (ok_body (JInt 7)))])))
       = [3 / 2]
   \<and> invocations (async_call_api_method
            (counted (\<lambda>self w. stateful_operation example_lib self w Get_basic_info))
            (example_client (JStr ''tok'') True, 0)
            (example_world [Http 429 (Inr JNull), Http 200 (Inr (ok_body (JInt 7)))])) = 2"
proof -
  let ?m = "\<lambda>self w. stateful_operation example_lib self w Get_basic_info"
  let ?self = "example_client (JStr ''tok'') True"
  let ?c = "operation_call Get_basic_info"
  let ?w = "example_world [Http 429 (Inr JNull), Http 200 (Inr (ok_body (JInt 7)))]"
  let ?w1 = "after_send ?w (build_request ?self ?c)"
  have h1: "\<not> session_closed ?self" by (simp add: example_client_def)
  have h2: "c_auth ?c \<longrightarrow> truthy (printer_token ?self)" by (simp add: example_client_def)
  have a1: "answer_to ?w (build_request ?self ?c) = Http 429 (Inr JNull)"
    by (simp add: answer_to_def example_world_def scripted_def)
  have a2: "answer_to (backoff ?w1) (build_request ?self ?c) = Http 200 (Inr (ok_body (JInt 7)))"
    by (simp add: answer_to_def backoff_def after_send_def example_world_def scripted_def)
  have f1: "failure_status example_lib (answer_to ?w (build_request ?self ?c)) \<noteq> Some 401"
    unfolding a1 by (simp add: failure_status_def)
  have f2: "failure_status example_lib (answer_to (backoff ?w1) (build_request ?self ?c)) \<noteq> Some 401"
    unfolding a2 by (simp add: failure_status_def ok_body_def)
  have first: "?m ?self ?w = ((Inl (ClientResponseError 429), ?self), ?w1)"
    by (simp only: example_attempt [OF f1] a1) simp
  have second: "?m ?self (backoff ?w1) =
      ((Inr (JInt 7), ?self), after_send (backoff ?w1) (build_request ?self ?c))"
    by (simp only: example_attempt [OF f2] a2) (simp add: ok_body_def)
  have tr: "spec_transient (ClientResponseError 429)"
    by (simp add: spec_transient_def)
  from transient_failure_retried_once [of ?m ?self ?w "Inl (ClientResponseError 429)" ?self ?w1, OF first] tr
  have e: "async_call_api_method ?m ?self ?w = ?m ?self (backoff ?w1)"
    and n: "invocations (async_call_api_method (counted ?m) (?self, 0) ?w) = 2"
    by blast+
  have g1: "fst (async_call_api_method ?m ?self ?w) = (Inr (JInt 7), ?self)"
    unfolding e second by simp
  have g2: "slept (snd (async_call_api_method ?m ?self ?w)) = [3 / 2]"
    unfolding e second by (simp add: after_send_def backoff_def example_world_def)
  from first tr g1 g2 n show ?thesis by blast
qed

end
